theory Spec2Isabelle
  imports Complex_Main
begin

section \<open>Common conventions\<close>

text \<open>
  The three scripts of the repository build a pitch deck: \<^verbatim>\<open>generate_pitch_deck.py\<close>
  builds slides with python-pptx (the fixed-canvas backend), and
  \<^verbatim>\<open>generate_pitch_deck_pdf.py\<close> and \<^verbatim>\<open>generate_final_pitch_deck.py\<close> build a list of
  reportlab flowables (the flow backend) that is handed to \<^verbatim>\<open>doc.build\<close>.

  Python strings are modelled as \<^typ>\<open>string\<close>; a character outside ASCII is written as
  the bytes of its UTF-8 encoding. Lengths given as Python floats are modelled as exact
  reals. The libraries themselves (python-pptx, reportlab) are not part of the
  repository: their objects appear as plain data (records and datatype constructors)
  holding exactly what the scripts store in them.
\<close>

datatype py_error = IndexError

section \<open>The slide backend: \<^verbatim>\<open>generate_pitch_deck.py\<close>\<close>

subsection \<open>Lengths and colours\<close>

text \<open>
  python-pptx lengths are integers in English Metric Units: \<^verbatim>\<open>Inches(x)\<close> is
  \<^verbatim>\<open>int(x * 914400)\<close> and \<^verbatim>\<open>Pt(x)\<close> is \<^verbatim>\<open>int(x * 12700)\<close>; every argument in the script
  is non-negative, where \<^verbatim>\<open>int\<close> is the floor. For each argument the script uses (0, 0.1,
  0.3, 0.5, 0.8, 1.2, 1.5, 2, 3.8, 4.5, 5.2, 6, 7.5, 9 and 10 inches) the floating-point
  product has the integer part of the exact one, so the exact product is used.
\<close>

definition Inches :: "real \<Rightarrow> int" where
  "Inches x = \<lfloor>x * 914400\<rfloor>"

definition Pt :: "real \<Rightarrow> int" where
  "Pt x = \<lfloor>x * 12700\<rfloor>"

datatype rgb_color = RGBColor nat nat nat

definition PRIMARY :: rgb_color where "PRIMARY = RGBColor 139 69 255"
definition SECONDARY :: rgb_color where "SECONDARY = RGBColor 0 255 200"
definition ACCENT :: rgb_color where "ACCENT = RGBColor 255 100 200"
definition DARK :: rgb_color where "DARK = RGBColor 15 15 35"
definition LIGHT :: rgb_color where "LIGHT = RGBColor 240 240 255"
definition TEXT_DARK :: rgb_color where "TEXT_DARK = RGBColor 30 30 60"

subsection \<open>Presentation objects\<close>

text \<open>
  An attribute the script never sets is \<open>None\<close> (the library's default applies).
\<close>

record pptx_paragraph =
  p_text :: string
  font_size :: "int option"
  font_bold :: "bool option"
  font_color :: "rgb_color option"
  space_before :: "int option"
  space_after :: "int option"
  level :: nat

record textframe =
  word_wrap :: "bool option"
  margin_bottom :: "int option"
  margin_left :: "int option"
  paragraphs :: "pptx_paragraph list"

record shape =
  auto_shape_type :: "nat option"
  shape_left :: int
  shape_top :: int
  shape_width :: int
  shape_height :: int
  fill_color :: "rgb_color option"
  line_color :: "rgb_color option"
  text_frame :: textframe

record slide =
  layout :: nat
  background :: "rgb_color option"
  shapes :: "shape list"

record presentation =
  slide_width :: int
  slide_height :: int
  slides :: "slide list"

text \<open>
  What the library hands out: a new text frame holds exactly one empty paragraph,
  \<^verbatim>\<open>add_paragraph\<close> appends one more, a new shape has the geometry it was asked for,
  and a new slide has no shapes.
\<close>

definition new_paragraph :: pptx_paragraph where
  "new_paragraph = \<lparr>p_text = [], font_size = None, font_bold = None, font_color = None,
     space_before = None, space_after = None, level = 0\<rparr>"

definition new_text_frame :: textframe where
  "new_text_frame = \<lparr>word_wrap = None, margin_bottom = None, margin_left = None,
     paragraphs = [new_paragraph]\<rparr>"

definition add_paragraph :: "textframe \<Rightarrow> textframe" where
  "add_paragraph tf = tf\<lparr>paragraphs := paragraphs tf @ [new_paragraph]\<rparr>"

definition add_textbox :: "int \<Rightarrow> int \<Rightarrow> int \<Rightarrow> int \<Rightarrow> shape" where
  "add_textbox l t w h = \<lparr>auto_shape_type = None, shape_left = l, shape_top = t,
     shape_width = w, shape_height = h, fill_color = None, line_color = None,
     text_frame = new_text_frame\<rparr>"

definition add_shape :: "nat \<Rightarrow> int \<Rightarrow> int \<Rightarrow> int \<Rightarrow> int \<Rightarrow> shape" where
  "add_shape k l t w h = \<lparr>auto_shape_type = Some k, shape_left = l, shape_top = t,
     shape_width = w, shape_height = h, fill_color = None, line_color = None,
     text_frame = new_text_frame\<rparr>"

definition add_slide :: "nat \<Rightarrow> slide" where
  "add_slide lay = \<lparr>layout = lay, background = None, shapes = []\<rparr>"

definition Presentation :: presentation where
  "Presentation = \<lparr>slide_width = 9144000, slide_height = 6858000, slides = []\<rparr>"

subsection \<open>The item loop\<close>

text \<open>
  The three item loops of the script have one shape:
  \<^verbatim>\<open>
  for i, item in enumerate(items):
      if i > 0:
          frame.add_paragraph()
      p = frame.paragraphs[i]
      p.text = item
      ... formatting of p ...
  \<close>
  \<open>fill_paragraphs\<close> is that loop with the index \<open>i\<close> explicit and the assignments to
  \<open>p\<close> as the parameter \<open>fmt\<close>; reading \<^verbatim>\<open>paragraphs[i]\<close> out of range raises.
\<close>

fun fill_paragraphs ::
  "(string \<Rightarrow> pptx_paragraph \<Rightarrow> pptx_paragraph) \<Rightarrow> nat \<Rightarrow> string list \<Rightarrow> textframe
     \<Rightarrow> py_error + textframe" where
  "fill_paragraphs fmt i [] tf = Inr tf"
| "fill_paragraphs fmt i (item # items) tf =
     (let tf1 = (if i > 0 then add_paragraph tf else tf) in
      if i < length (paragraphs tf1)
      then fill_paragraphs fmt (Suc i) items
             (tf1\<lparr>paragraphs := (paragraphs tf1)[i := fmt item (paragraphs tf1 ! i)]\<rparr>)
      else Inl IndexError)"

text \<open>The assignments to \<open>p\<close> in \<^verbatim>\<open>add_content_slide\<close> (lines 83 to 88).\<close>

definition content_item :: "string \<Rightarrow> pptx_paragraph \<Rightarrow> pptx_paragraph" where
  "content_item item p = p\<lparr>p_text := item, font_size := Some (Pt 18),
     font_color := Some LIGHT, space_before := Some (Pt 8), space_after := Some (Pt 8),
     level := 0\<rparr>"

text \<open>The assignments to \<open>p\<close> in both loops of \<^verbatim>\<open>add_two_column_slide\<close>.\<close>

definition column_item :: "string \<Rightarrow> pptx_paragraph \<Rightarrow> pptx_paragraph" where
  "column_item item p = p\<lparr>p_text := item, font_size := Some (Pt 16),
     font_color := Some LIGHT, space_before := Some (Pt 6), space_after := Some (Pt 6)\<rparr>"

subsection \<open>The slide-building helpers\<close>

text \<open>
  Each helper adds its slide to \<open>prs\<close> first and fills it afterwards through the same
  object; the model builds the finished slide and appends it. A helper returns the
  slide; the presentation it has extended is returned beside it.
\<close>

definition add_title_slide ::
  "presentation \<Rightarrow> string \<Rightarrow> string \<Rightarrow> py_error + presentation \<times> slide" where
  "add_title_slide prs title subtitle =
    (let slide0 = (add_slide 6)\<lparr>background := Some DARK\<rparr>;
         title_box = add_textbox (Inches 0.5) (Inches 2) (Inches 9) (Inches 1.5);
         title_frame = (text_frame title_box)\<lparr>word_wrap := Some True\<rparr>
     in case paragraphs title_frame of
          [] \<Rightarrow> Inl IndexError
        | p # ps \<Rightarrow>
           (let title_frame1 = title_frame\<lparr>paragraphs :=
                  p\<lparr>p_text := title, font_size := Some (Pt 54), font_bold := Some True,
                    font_color := Some SECONDARY\<rparr> # ps\<rparr>;
                subtitle_box = add_textbox (Inches 0.5) (Inches 3.8) (Inches 9) (Inches 1.5);
                subtitle_frame = (text_frame subtitle_box)\<lparr>word_wrap := Some True\<rparr>
            in case paragraphs subtitle_frame of
                 [] \<Rightarrow> Inl IndexError
               | q # qs \<Rightarrow>
                  (let subtitle_frame1 = subtitle_frame\<lparr>paragraphs :=
                         q\<lparr>p_text := subtitle, font_size := Some (Pt 28),
                           font_color := Some LIGHT\<rparr> # qs\<rparr>;
                       slide1 = slide0\<lparr>shapes := [title_box\<lparr>text_frame := title_frame1\<rparr>,
                         subtitle_box\<lparr>text_frame := subtitle_frame1\<rparr>]\<rparr>
                   in Inr (prs\<lparr>slides := slides prs @ [slide1]\<rparr>, slide1))))"

definition add_content_slide ::
  "presentation \<Rightarrow> string \<Rightarrow> string list \<Rightarrow> py_error + presentation \<times> slide" where
  "add_content_slide prs title content_items =
    (let slide0 = (add_slide 6)\<lparr>background := Some DARK\<rparr>;
         title_shape = (add_shape 1 (Inches 0) (Inches 0) (Inches 10) (Inches 0.8))
           \<lparr>fill_color := Some PRIMARY, line_color := Some PRIMARY\<rparr>;
         title_frame = (text_frame title_shape)
           \<lparr>margin_bottom := Some (Inches 0.1), margin_left := Some (Inches 0.3)\<rparr>
     in case paragraphs title_frame of
          [] \<Rightarrow> Inl IndexError
        | p # ps \<Rightarrow>
           (let title_frame1 = title_frame\<lparr>paragraphs :=
                  p\<lparr>p_text := title, font_size := Some (Pt 36), font_bold := Some True,
                    font_color := Some LIGHT\<rparr> # ps\<rparr>;
                content_box = add_textbox (Inches 0.5) (Inches 1.2) (Inches 9) (Inches 6);
                text_frame0 = (text_frame content_box)\<lparr>word_wrap := Some True\<rparr>
            in case fill_paragraphs content_item 0 content_items text_frame0 of
                 Inl e \<Rightarrow> Inl e
               | Inr text_frame1 \<Rightarrow>
                  (let slide1 = slide0\<lparr>shapes := [title_shape\<lparr>text_frame := title_frame1\<rparr>,
                         content_box\<lparr>text_frame := text_frame1\<rparr>]\<rparr>
                   in Inr (prs\<lparr>slides := slides prs @ [slide1]\<rparr>, slide1))))"

definition add_two_column_slide ::
  "presentation \<Rightarrow> string \<Rightarrow> string list \<Rightarrow> string list
     \<Rightarrow> py_error + presentation \<times> slide" where
  "add_two_column_slide prs title left_items right_items =
    (let slide0 = (add_slide 6)\<lparr>background := Some DARK\<rparr>;
         title_shape = (add_shape 1 (Inches 0) (Inches 0) (Inches 10) (Inches 0.8))
           \<lparr>fill_color := Some PRIMARY, line_color := Some PRIMARY\<rparr>;
         title_frame = (text_frame title_shape)
           \<lparr>margin_bottom := Some (Inches 0.1), margin_left := Some (Inches 0.3)\<rparr>
     in case paragraphs title_frame of
          [] \<Rightarrow> Inl IndexError
        | p # ps \<Rightarrow>
           (let title_frame1 = title_frame\<lparr>paragraphs :=
                  p\<lparr>p_text := title, font_size := Some (Pt 36), font_bold := Some True,
                    font_color := Some LIGHT\<rparr> # ps\<rparr>;
                left_box = add_textbox (Inches 0.3) (Inches 1.2) (Inches 4.5) (Inches 6);
                left_frame = (text_frame left_box)\<lparr>word_wrap := Some True\<rparr>
            in case fill_paragraphs column_item 0 left_items left_frame of
                 Inl e \<Rightarrow> Inl e
               | Inr left_frame1 \<Rightarrow>
                  (let right_box = add_textbox (Inches 5.2) (Inches 1.2) (Inches 4.5) (Inches 6);
                       right_frame = (text_frame right_box)\<lparr>word_wrap := Some True\<rparr>
                   in case fill_paragraphs column_item 0 right_items right_frame of
                        Inl e \<Rightarrow> Inl e
                      | Inr right_frame1 \<Rightarrow>
                         (let slide1 = slide0\<lparr>shapes :=
                                [title_shape\<lparr>text_frame := title_frame1\<rparr>,
                                 left_box\<lparr>text_frame := left_frame1\<rparr>,
                                 right_box\<lparr>text_frame := right_frame1\<rparr>]\<rparr>
                          in Inr (prs\<lparr>slides := slides prs @ [slide1]\<rparr>, slide1)))))"

subsection \<open>The deck\<close>

text \<open>
  \<^verbatim>\<open>create_pitch_deck\<close> is straight-line code: seventeen calls of the three helpers on one
  presentation, each result discarded. The calls are kept as data, in source order, and
  \<open>run_calls\<close> performs them one after the other; an exception in a call ends the run.
\<close>

datatype slide_call =
    Title_slide string string
  | Content_slide string "string list"
  | Two_column_slide string "string list" "string list"

fun run_call :: "presentation \<Rightarrow> slide_call \<Rightarrow> py_error + presentation \<times> slide" where
  "run_call prs (Title_slide title subtitle) = add_title_slide prs title subtitle"
| "run_call prs (Content_slide title content_items) = add_content_slide prs title content_items"
| "run_call prs (Two_column_slide title left_items right_items) =
     add_two_column_slide prs title left_items right_items"

fun run_calls :: "presentation \<Rightarrow> slide_call list \<Rightarrow> py_error + presentation" where
  "run_calls prs [] = Inr prs"
| "run_calls prs (c # cs) =
     (case run_call prs c of Inl e \<Rightarrow> Inl e | Inr (prs1, s) \<Rightarrow> run_calls prs1 cs)"

definition deck_calls :: "slide_call list" where
  \<open>deck_calls =
    [Title_slide ([CHR 0xF0, CHR 0x9F, CHR 0x8C, CHR 0x9F] @ '' DreamMarket'')
      ''The Marketplace of Digital Souls\<newline>AI Agents on Hedera Blockchain'',
     Content_slide ([CHR 0xF0, CHR 0x9F, CHR 0x8E, CHR 0xAF] @ '' The Problem'')
      [[CHR 0xE2, CHR 0x80, CHR 0xA2] @ '' AI is becoming mainstream, but lacks decentralized infrastructure'',
       [CHR 0xE2, CHR 0x80, CHR 0xA2] @ '' NFTs revolutionized digital ownership, but lack AI integration'',
       [CHR 0xE2, CHR 0x80, CHR 0xA2] @ '' No marketplace for AI personalities as tradeable digital assets'',
       [CHR 0xE2, CHR 0x80, CHR 0xA2] @ '' Existing AI platforms are centralized and lack transparency'',
       [CHR 0xE2, CHR 0x80, CHR 0xA2] @ '' Need for verifiable, on-chain AI agents with proven capabilities''],
     Content_slide ([CHR 0xF0, CHR 0x9F, CHR 0x92, CHR 0xA1] @ '' Our Solution'')
      [[CHR 0xE2, CHR 0x9C, CHR 0x93] @ '' DreamMarket: AI personalities as tradeable NFTs on Hedera'',
       [CHR 0xE2, CHR 0x9C, CHR 0x93] @ '' Each '' @ [CHR 0x27] @ ''Soul'' @ [CHR 0x27] @ '' is a unique AI agent with distinct personality & skills'',
       [CHR 0xE2, CHR 0x9C, CHR 0x93] @ '' Built on Hedera HTS for fast, low-cost NFT minting'',
       [CHR 0xE2, CHR 0x9C, CHR 0x93] @ '' ERC-8004 Smart Contracts for verifiable on-chain agents'',
       [CHR 0xE2, CHR 0x9C, CHR 0x93] @ '' Dynamic evolution system - souls grow and change through interaction''],
     Content_slide ([CHR 0xE2, CHR 0xAD, CHR 0x90] @ '' 1. INNOVATION'')
      [[CHR 0xF0, CHR 0x9F, CHR 0x94, CHR 0xAE] @ '' Novel Concept: AI personalities as tradeable digital assets'',
       [CHR 0xF0, CHR 0x9F, CHR 0x8E, CHR 0xAF] @ '' Perfect alignment with AI & Agents track'',
       [CHR 0xF0, CHR 0x9F, CHR 0x9A, CHR 0x80] @ '' First-of-its-kind on Hedera ecosystem'',
       [CHR 0xF0, CHR 0x9F, CHR 0xA7, CHR 0xAC] @ '' Dynamic evolution system with personality growth'',
       [CHR 0xF0, CHR 0x9F, CHR 0x93, CHR 0x8A] @ '' Implements ERC-8004 standard for verifiable agents'',
       [CHR 0xF0, CHR 0x9F, CHR 0x8C, CHR 0x90] @ '' Enables decentralized AI economies''],
     Content_slide ([CHR 0xE2, CHR 0x9C, CHR 0x85] @ '' 2. FEASIBILITY'')
      [[CHR 0xF0, CHR 0x9F, CHR 0x8F, CHR 0x97, CHR 0xEF, CHR 0xB8, CHR 0x8F] @ '' Built entirely on Hedera infrastructure'',
       [CHR 0xF0, CHR 0x9F, CHR 0x92, CHR 0xBB] @ '' Production-ready architecture with clear roadmap'',
       [CHR 0xF0, CHR 0x9F, CHR 0x94, CHR 0x90] @ '' Realistic business model with multiple revenue streams'',
       [CHR 0xF0, CHR 0x9F, CHR 0x93, CHR 0x88] @ '' Scalable from testnet to mainnet'',
       [CHR 0xF0, CHR 0x9F, CHR 0x9B, CHR 0xA0, CHR 0xEF, CHR 0xB8, CHR 0x8F] @ '' Proven tech stack: Next.js, TypeScript, Hedera SDK'',
       [CHR 0xF0, CHR 0x9F, CHR 0x92, CHR 0xB0] @ '' Low operational costs due to Hedera'' @ [CHR 0x27] @ ''s efficiency''],
     Content_slide ([CHR 0xF0, CHR 0x9F, CHR 0x8E, CHR 0xA8] @ '' 3. EXECUTION'')
      [[CHR 0xE2, CHR 0x9C, CHR 0xA8] @ '' Working MVP with full feature set'',
       [CHR 0xF0, CHR 0x9F, CHR 0x8E, CHR 0xAD] @ '' Create souls with AI personality generation'',
       [CHR 0xF0, CHR 0x9F, CHR 0x92, CHR 0xAC] @ '' Chat with souls - they learn and evolve'',
       [CHR 0xF0, CHR 0x9F, CHR 0x93, CHR 0x8A] @ '' Professional UI/UX with cosmic theme'',
       [CHR 0xF0, CHR 0x9F, CHR 0x8E, CHR 0xAF] @ '' Clear long-term roadmap (marketplace, breeding, DAO)'',
       [CHR 0xE2, CHR 0x99, CHR 0xBF] @ '' Excellent accessibility and user experience''],
     Two_column_slide ([CHR 0xF0, CHR 0x9F, CHR 0x94, CHR 0x97] @ '' 4. INTEGRATION - Deep Hedera Usage'')
      [''Hedera Services Used:'',
       [CHR 0xE2, CHR 0x80, CHR 0xA2] @ '' Hedera Token Service (HTS)'',
       ''  - NFT minting & management'',
       ''  - Token ID: 0.0.7242548'',
       [CHR 0xE2, CHR 0x80, CHR 0xA2] @ '' Smart Contract Service'',
       ''  - ERC-8004 compliance'',
       ''  - Contract ID: 0.0.7261125'',
       [CHR 0xE2, CHR 0x80, CHR 0xA2] @ '' Consensus Service'',
       ''  - Sub-second finality'',
       ''  - Fair ordering'']
      [''Integration Metrics:'',
       [CHR 0xE2, CHR 0x80, CHR 0xA2] @ '' Mirror Node API'',
       ''  - Real-time data queries'',
       ''  - Transaction history'',
       [CHR 0xE2, CHR 0x80, CHR 0xA2] @ '' Hedera SDK'',
       ''  - Account management'',
       ''  - Receipt verification'',
       [CHR 0xE2, CHR 0x80, CHR 0xA2] @ '' HashScan Explorer'',
       ''  - Public verification'',
       ''  - Transaction transparency''],
     Content_slide ([CHR 0xF0, CHR 0x9F, CHR 0x8F, CHR 0x86] @ '' 5. SUCCESS POTENTIAL'')
      [[CHR 0xF0, CHR 0x9F, CHR 0x93, CHR 0x88] @ '' High potential to increase Hedera adoption'',
       [CHR 0xF0, CHR 0x9F, CHR 0xA4, CHR 0x96] @ '' Brings AI community to Hedera ecosystem'',
       [CHR 0xF0, CHR 0x9F, CHR 0x8C, CHR 0x8D] @ '' Scalable to mainnet with clear migration path'',
       [CHR 0xF0, CHR 0x9F, CHR 0x92, CHR 0x8E] @ '' Clear value proposition for users & developers'',
       [CHR 0xF0, CHR 0x9F, CHR 0x94, CHR 0x84] @ '' Enables new use cases: agent-to-agent transactions'',
       [CHR 0xF0, CHR 0x9F, CHR 0x9A, CHR 0x80] @ '' Taps into $200B+ AI market + $10B+ NFT market''],
     Content_slide ([CHR 0xE2, CHR 0x9C, CHR 0x94, CHR 0xEF, CHR 0xB8, CHR 0x8F] @ '' 6. VALIDATION'')
      [[CHR 0xF0, CHR 0x9F, CHR 0x93, CHR 0x8A] @ '' Market research: NFT + AI intersection is untapped'',
       [CHR 0xF0, CHR 0x9F, CHR 0x91, CHR 0xA5] @ '' User feedback incorporated during development'',
       [CHR 0xF0, CHR 0x9F, CHR 0x8E, CHR 0xAF] @ '' Strong product-market fit identified'',
       [CHR 0xF0, CHR 0x9F, CHR 0x93, CHR 0x88] @ '' Growing AI market with increasing adoption'',
       [CHR 0xF0, CHR 0x9F, CHR 0x94, CHR 0x8D] @ '' Clear target audience: AI enthusiasts, NFT collectors, Web3 devs'',
       [CHR 0xF0, CHR 0x9F, CHR 0x92, CHR 0xAA] @ '' Traction potential with emerging AI agent economy''],
     Two_column_slide ([CHR 0xF0, CHR 0x9F, CHR 0x8E, CHR 0xA4] @ '' 7. PITCH - Clear Problem/Solution'')
      [''Problem:'',
       [CHR 0xE2, CHR 0x80, CHR 0xA2] @ '' AI lacks decentralized infrastructure'',
       [CHR 0xE2, CHR 0x80, CHR 0xA2] @ '' NFTs lack AI integration'',
       [CHR 0xE2, CHR 0x80, CHR 0xA2] @ '' No verifiable AI agent marketplace'',
       '''',
       ''Solution:'',
       [CHR 0xE2, CHR 0x80, CHR 0xA2] @ '' DreamMarket: AI as tradeable NFTs'',
       [CHR 0xE2, CHR 0x80, CHR 0xA2] @ '' Hedera-powered for speed & cost'',
       [CHR 0xE2, CHR 0x80, CHR 0xA2] @ '' ERC-8004 verified agents'']
      [''Opportunity Metrics:'',
       [CHR 0xE2, CHR 0x80, CHR 0xA2] @ '' NFT Market: $10B+ (2024)'',
       [CHR 0xE2, CHR 0x80, CHR 0xA2] @ '' AI Market: $200B+ (2024)'',
       [CHR 0xE2, CHR 0x80, CHR 0xA2] @ '' Intersection: Untapped'',
       '''',
       ''Revenue Streams:'',
       [CHR 0xE2, CHR 0x80, CHR 0xA2] @ '' Minting fees'',
       [CHR 0xE2, CHR 0x80, CHR 0xA2] @ '' Marketplace commission (2.5%)'',
       [CHR 0xE2, CHR 0x80, CHR 0xA2] @ '' Premium features'',
       [CHR 0xE2, CHR 0x80, CHR 0xA2] @ '' Enterprise licensing''],
     Content_slide ([CHR 0xF0, CHR 0x9F, CHR 0x8F, CHR 0x97, CHR 0xEF, CHR 0xB8, CHR 0x8F] @ '' Technical Architecture'')
      [''Frontend: Next.js 14, TypeScript, Tailwind CSS, Framer Motion'',
       ''Backend: Next.js API Routes, Hedera SDK, PostgreSQL (Supabase)'',
       ''Blockchain: Hedera Testnet, HTS, Smart Contracts, Mirror Node'',
       ''AI: Groq API for personality generation'',
       ''Wallet: HashConnect for non-custodial transactions'',
       ''Deployment: Vercel for frontend, production-ready''],
     Content_slide ([CHR 0xE2, CHR 0x9C, CHR 0xA8] @ '' Key Features'')
      [[CHR 0xF0, CHR 0x9F, CHR 0x8E, CHR 0xA8] @ '' Soul Creation: Design unique AI personalities with rarity tiers'',
       [CHR 0xF0, CHR 0x9F, CHR 0x92, CHR 0xAC] @ '' Chat System: Interact with souls - they learn and evolve'',
       [CHR 0xF0, CHR 0x9F, CHR 0x9B, CHR 0x8D, CHR 0xEF, CHR 0xB8, CHR 0x8F] @ '' Marketplace: Browse, trade, and collect souls'',
       [CHR 0xF0, CHR 0x9F, CHR 0x93, CHR 0x8A] @ '' Leaderboards: Track top souls and creators'',
       [CHR 0xF0, CHR 0x9F, CHR 0x94, CHR 0x97] @ '' On-Chain Verification: All transactions on HashScan'',
       [CHR 0xF0, CHR 0x9F, CHR 0xA7, CHR 0xAC] @ '' Evolution System: Souls grow through interactions''],
     Two_column_slide ([CHR 0xF0, CHR 0x9F, CHR 0x9A, CHR 0x80] @ '' Roadmap'')
      [''Phase 1: MVP (Current)'',
       [CHR 0xE2, CHR 0x9C, CHR 0x85] @ '' Soul creation'',
       [CHR 0xE2, CHR 0x9C, CHR 0x85] @ '' HTS integration'',
       [CHR 0xE2, CHR 0x9C, CHR 0x85] @ '' NFT minting'',
       [CHR 0xE2, CHR 0x9C, CHR 0x85] @ '' Beautiful UI/UX'',
       '''',
       ''Phase 2: Marketplace (Q1 2026)'',
       [CHR 0xE2, CHR 0x96, CHR 0xA1] @ '' Browse & discover'',
       [CHR 0xE2, CHR 0x96, CHR 0xA1] @ '' Buy/sell functionality'',
       [CHR 0xE2, CHR 0x96, CHR 0xA1] @ '' Wallet integration'']
      [''Phase 3: AI Integration (Q2 2026)'',
       [CHR 0xE2, CHR 0x96, CHR 0xA1] @ '' AI chat system'',
       [CHR 0xE2, CHR 0x96, CHR 0xA1] @ '' Personality evolution'',
       [CHR 0xE2, CHR 0x96, CHR 0xA1] @ '' Skill development'',
       [CHR 0xE2, CHR 0x96, CHR 0xA1] @ '' Agent-to-agent communication'',
       '''',
       ''Phase 4: Advanced (Q3 2026)'',
       [CHR 0xE2, CHR 0x96, CHR 0xA1] @ '' Soul breeding/fusion'',
       [CHR 0xE2, CHR 0x96, CHR 0xA1] @ '' Governance token'',
       [CHR 0xE2, CHR 0x96, CHR 0xA1] @ '' DAO for marketplace'',
       [CHR 0xE2, CHR 0x96, CHR 0xA1] @ '' Mobile app & mainnet''],
     Content_slide ([CHR 0xF0, CHR 0x9F, CHR 0x92, CHR 0xB0] @ '' Business Model'')
      [''Revenue Stream 1: Minting Fees - Small fee per soul creation'',
       ''Revenue Stream 2: Marketplace Commission - 2.5% on secondary sales'',
       ''Revenue Stream 3: Premium Features - Advanced AI interactions'',
       ''Revenue Stream 4: Enterprise Licensing - Custom collections & API access'',
       ''Target Market: AI enthusiasts, NFT collectors, crypto gamers, Web3 devs'',
       ''Path to Profitability: Sustainable through multiple revenue streams''],
     Content_slide ([CHR 0xF0, CHR 0x9F, CHR 0x8E, CHR 0xAF] @ '' Competitive Advantage'')
      [[CHR 0xE2, CHR 0x9A, CHR 0xA1] @ '' Built on Hedera: Sub-second finality, low costs'',
       [CHR 0xF0, CHR 0x9F, CHR 0x94, CHR 0x90] @ '' ERC-8004 Compliance: Verifiable on-chain agents'',
       [CHR 0xF0, CHR 0x9F, CHR 0x8E, CHR 0xA8] @ '' Beautiful UX: Professional design with cosmic theme'',
       [CHR 0xF0, CHR 0x9F, CHR 0xA7, CHR 0xAC] @ '' Evolution System: Unique personality growth mechanics'',
       [CHR 0xF0, CHR 0x9F, CHR 0x8C, CHR 0x90] @ '' Ecosystem Integration: Deep Hedera integration'',
       [CHR 0xF0, CHR 0x9F, CHR 0x93, CHR 0x88] @ '' First-Mover: First AI agent marketplace on Hedera''],
     Content_slide ([CHR 0xF0, CHR 0x9F, CHR 0x91, CHR 0xA5] @ '' Team & Resources'')
      [[CHR 0xF0, CHR 0x9F, CHR 0x9A, CHR 0x80] @ '' Full-stack development team with blockchain expertise'',
       [CHR 0xF0, CHR 0x9F, CHR 0x92, CHR 0xBB] @ '' Production-ready codebase with comprehensive documentation'',
       [CHR 0xF0, CHR 0x9F, CHR 0x94, CHR 0xAC] @ '' Proven tech stack: Next.js, TypeScript, Hedera SDK'',
       [CHR 0xF0, CHR 0x9F, CHR 0x93, CHR 0x9A] @ '' Clear roadmap with realistic timelines'',
       [CHR 0xF0, CHR 0x9F, CHR 0xA4, CHR 0x9D] @ '' Strong community support and mentorship'',
       [CHR 0xE2, CHR 0x9C, CHR 0x85] @ '' Ready for mainnet deployment and scaling''],
     Title_slide ([CHR 0xF0, CHR 0x9F, CHR 0x8C, CHR 0x9F] @ '' Join the Revolution'')
      (''Where Digital Souls Come Alive on the Blockchain\<newline>\<newline>Let'' @ [CHR 0x27] @ ''s build the future of AI on Hedera!'')]\<close>

text \<open>The presentation as it is when \<^verbatim>\<open>prs.save\<close> is reached.\<close>

definition create_pitch_deck :: "py_error + presentation" where
  "create_pitch_deck =
     run_calls (Presentation\<lparr>slide_width := Inches 10, slide_height := Inches 7.5\<rparr>) deck_calls"

section \<open>The flow backend: the two PDF scripts\<close>

subsection \<open>Flowables\<close>

text \<open>
  reportlab lengths are points; \<^verbatim>\<open>inch\<close> is 72. Both scripts declare the same six
  colours.
\<close>

definition inch :: real where
  "inch = 72"

datatype hex_color = HexColor string | colors_white | colors_grey | colors_lightgrey

definition PRIMARY_hex :: hex_color where "PRIMARY_hex = HexColor ''#8B45FF''"
definition SECONDARY_hex :: hex_color where "SECONDARY_hex = HexColor ''#00FFC8''"
definition ACCENT_hex :: hex_color where "ACCENT_hex = HexColor ''#FF64C8''"
definition DARK_hex :: hex_color where "DARK_hex = HexColor ''#0F0F23''"
definition LIGHT_hex :: hex_color where "LIGHT_hex = HexColor ''#F0F0FF''"
definition TEXT_DARK_hex :: hex_color where "TEXT_DARK_hex = HexColor ''#1E1E3C''"

datatype text_alignment = TA_LEFT | TA_CENTER | TA_JUSTIFY

record paragraph_style =
  style_name :: string
  parent :: string
  fontSize :: real
  textColor :: hex_color
  spaceAfter :: real
  alignment :: "text_alignment option"
  leftIndent :: "real option"
  fontName :: string

text \<open>
  A table style command is a tuple: its name, the first and the last cell of the range
  it covers, and its arguments.
\<close>

datatype cmd_arg = Colour hex_color | Name string | Number real | Colours "hex_color list"

datatype table_cmd = TableCmd string "int \<times> int" "int \<times> int" "cmd_arg list"

record table =
  data :: "string list list"
  colWidths :: "real list"
  table_style :: "table_cmd list"

text \<open>
  \<^verbatim>\<open>Table(data, colWidths=...)\<close> and \<^verbatim>\<open>setStyle(TableStyle(...))\<close>: the scripts do nothing
  else with a table before appending it.
\<close>

definition Table :: "string list list \<Rightarrow> real list \<Rightarrow> table" where
  "Table d ws = \<lparr>data = d, colWidths = ws, table_style = []\<rparr>"

definition setStyle :: "table \<Rightarrow> table_cmd list \<Rightarrow> table" where
  "setStyle t cmds = t\<lparr>table_style := table_style t @ cmds\<rparr>"

datatype flowable =
    Spacer real real
  | Paragraph string paragraph_style
  | PageBreak
  | Table_flowable table

subsection \<open>The document\<close>







subsection \<open>The bullet loops\<close>

text \<open>
  The bullet lists are appended by one of two loops. The plain one:
  \<^verbatim>\<open>
  for item in items:
      elements.append(Paragraph(item, style))
  \<close>
\<close>

fun append_paragraphs :: "paragraph_style \<Rightarrow> string list \<Rightarrow> flowable list \<Rightarrow> flowable list" where
  "append_paragraphs style [] elements = elements"
| "append_paragraphs style (item # items) elements =
     append_paragraphs style items (elements @ [Paragraph item style])"

text \<open>
  and the one that turns an empty string into a gap:
  \<^verbatim>\<open>
  for item in items:
      if item == "":
          elements.append(Spacer(1, gap))
      else:
          elements.append(Paragraph(item, style))
  \<close>
\<close>

fun append_spaced ::
  "real \<Rightarrow> paragraph_style \<Rightarrow> string list \<Rightarrow> flowable list \<Rightarrow> flowable list" where
  "append_spaced gap style [] elements = elements"
| "append_spaced gap style (item # items) elements =
     append_spaced gap style items
       (elements @ [if item = '''' then Spacer 1 gap else Paragraph item style])"

subsection \<open>The clock\<close>

text \<open>
  \<^verbatim>\<open>generate_final_pitch_deck.py\<close> reads the clock once, for
  \<^verbatim>\<open>datetime.now().strftime('%B %d, %Y')\<close>: the full English month name, the day of the
  month as two digits, and the year in decimal. The value of the clock is the parameter
  \<open>now\<close> of the model; a \<^verbatim>\<open>datetime\<close> has a month from 1 to 12.
\<close>

record datetime =
  year :: nat
  month :: nat
  day :: nat

definition month_names :: "string list" where
  "month_names = [''January'', ''February'', ''March'', ''April'', ''May'', ''June'', ''July'',
     ''August'', ''September'', ''October'', ''November'', ''December'']"

definition digit :: "nat \<Rightarrow> char" where
  "digit n = ''0123456789'' ! (n mod 10)"

fun decimal :: "nat \<Rightarrow> string" where
  "decimal n = (if n < 10 then [digit n] else decimal (n div 10) @ [digit n])"

declare decimal.simps [simp del]

definition strftime_B_d_Y :: "datetime \<Rightarrow> string" where
  "strftime_B_d_Y now =
     (if 1 \<le> month now \<and> month now \<le> 12 then month_names ! (month now - 1) else [])
     @ '' '' @ [digit (day now div 10), digit (day now)] @ '', '' @ decimal (year now)"

subsection \<open>\<^verbatim>\<open>generate_final_pitch_deck.py\<close>\<close>

text \<open>
  \<^verbatim>\<open>create_pdf\<close> appends to one list, \<open>elements\<close>, from the first line to the last, and
  hands it to \<^verbatim>\<open>doc.build\<close>. The model follows the script's own division into slides:
  each part takes the list built so far and returns it extended. Names that both PDF
  scripts use carry the suffix \<open>_final\<close> here and \<open>_pdf\<close> in the other script.
\<close>

definition title_style_final :: paragraph_style where
  "title_style_final = \<lparr>style_name = ''CustomTitle'',
     parent = ''Heading1'',
     fontSize = 48,
     textColor = SECONDARY_hex,
     spaceAfter = 30,
     alignment = Some TA_CENTER,
     leftIndent = None,
     fontName = ''Helvetica-Bold''\<rparr>"

definition subtitle_style_final :: paragraph_style where
  "subtitle_style_final = \<lparr>style_name = ''CustomSubtitle'',
     parent = ''Heading2'',
     fontSize = 24,
     textColor = LIGHT_hex,
     spaceAfter = 20,
     alignment = Some TA_CENTER,
     leftIndent = None,
     fontName = ''Helvetica''\<rparr>"

definition heading_style_final :: paragraph_style where
  "heading_style_final = \<lparr>style_name = ''CustomHeading'',
     parent = ''Heading2'',
     fontSize = 32,
     textColor = PRIMARY_hex,
     spaceAfter = 15,
     alignment = Some TA_LEFT,
     leftIndent = None,
     fontName = ''Helvetica-Bold''\<rparr>"

definition heading2_style_final :: paragraph_style where
  "heading2_style_final = \<lparr>style_name = ''CustomHeading2'',
     parent = ''Heading3'',
     fontSize = 20,
     textColor = SECONDARY_hex,
     spaceAfter = 12,
     alignment = Some TA_LEFT,
     leftIndent = None,
     fontName = ''Helvetica-Bold''\<rparr>"

definition body_style_final :: paragraph_style where
  "body_style_final = \<lparr>style_name = ''CustomBody'',
     parent = ''BodyText'',
     fontSize = 14,
     textColor = TEXT_DARK_hex,
     spaceAfter = 10,
     alignment = Some TA_LEFT,
     leftIndent = None,
     fontName = ''Helvetica''\<rparr>"

definition bullet_style_final :: paragraph_style where
  "bullet_style_final = \<lparr>style_name = ''BulletStyle'',
     parent = ''BodyText'',
     fontSize = 12,
     textColor = TEXT_DARK_hex,
     spaceAfter = 8,
     alignment = None,
     leftIndent = Some 20,
     fontName = ''Helvetica''\<rparr>"

definition team_intro_final :: "string list" where
  \<open>team_intro_final =
    [''Project Name: DreamMarket - The Marketplace of Digital Souls'',
     ''Track: AI & Agents - AI-driven agents with decentralized infrastructure'',
     ''Hackathon: Hedera Hello Future: Ascension Hackathon 2025'',
     ''Timeline: November 3-21, 2025'',
     '''',
     ''Team Composition:'',
     [CHR 0xE2, CHR 0x80, CHR 0xA2] @ '' Full-stack development team with blockchain expertise'',
     [CHR 0xE2, CHR 0x80, CHR 0xA2] @ '' Experience in Next.js, TypeScript, and Hedera SDK'',
     [CHR 0xE2, CHR 0x80, CHR 0xA2] @ '' AI integration specialists with Groq API experience'',
     [CHR 0xE2, CHR 0x80, CHR 0xA2] @ '' UI/UX designers with modern design principles'',
     '''',
     ''Project Vision:'',
     ''Create a revolutionary marketplace where AI personalities become tradeable digital assets on Hedera blockchain, enabling verifiable on-chain agents with dynamic evolution systems.'']\<close>

definition summary_items_final :: "string list" where
  \<open>summary_items_final =
    [''DreamMarket is a revolutionary marketplace where AI personalities become tradeable digital assets (NFTs) on Hedera blockchain.'',
     ''Each '' @ [CHR 0x27] @ ''Soul'' @ [CHR 0x27] @ '' is a unique NFT representing an AI agent with distinct personality, skills, and characteristics.'',
     ''Built for the AI & Agents track, enabling creation, ownership, and trading of verifiable AI agents using Hedera'' @ [CHR 0x27] @ ''s fast, low-cost transactions.'',
     ''Leverages HTS for NFT minting, implements ERC-8004 Smart Contracts for on-chain agent verification.'',
     ''Features dynamic AI personalities with evolution systems and provides transparent on-chain history.'',
     ''Vision: Create a thriving ecosystem where AI agents can collaborate, transact, and evolve autonomously.'']\<close>

definition criteria_data_final :: "string list list" where
  \<open>criteria_data_final =
    [[''1. INNOVATION (10%)'',
      ''2. FEASIBILITY (10%)''],
     [[CHR 0xE2, CHR 0x9C, CHR 0x93] @ '' Novel Concept: AI personalities as tradeable NFTs\<newline>'' @ [CHR 0xE2, CHR 0x9C, CHR 0x93] @ '' First-of-its-kind on Hedera ecosystem\<newline>'' @ [CHR 0xE2, CHR 0x9C, CHR 0x93] @ '' Dynamic evolution system with personality growth\<newline>'' @ [CHR 0xE2, CHR 0x9C, CHR 0x93] @ '' ERC-8004 standard implementation\<newline>'' @ [CHR 0xE2, CHR 0x9C, CHR 0x93] @ '' Enables decentralized AI economies\<newline>'' @ [CHR 0xE2, CHR 0x9C, CHR 0x93] @ '' Perfect alignment with AI & Agents track'',
      [CHR 0xE2, CHR 0x9C, CHR 0x93] @ '' Built entirely on Hedera infrastructure\<newline>'' @ [CHR 0xE2, CHR 0x9C, CHR 0x93] @ '' Production-ready architecture\<newline>'' @ [CHR 0xE2, CHR 0x9C, CHR 0x93] @ '' Realistic business model with revenue streams\<newline>'' @ [CHR 0xE2, CHR 0x9C, CHR 0x93] @ '' Scalable from testnet to mainnet\<newline>'' @ [CHR 0xE2, CHR 0x9C, CHR 0x93] @ '' Proven tech stack: Next.js, TypeScript, Hedera SDK\<newline>'' @ [CHR 0xE2, CHR 0x9C, CHR 0x93] @ '' Low operational costs'']]\<close>

definition criteria_table_final :: table where
  "criteria_table_final = setStyle (Table criteria_data_final [4.5 * inch, 4.5 * inch])
    [TableCmd ''BACKGROUND'' (0, 0) (-1, 0) [Colour PRIMARY_hex],
     TableCmd ''TEXTCOLOR'' (0, 0) (-1, 0) [Colour LIGHT_hex],
     TableCmd ''ALIGN'' (0, 0) (-1, -1) [Name ''LEFT''],
     TableCmd ''FONTNAME'' (0, 0) (-1, 0) [Name ''Helvetica-Bold''],
     TableCmd ''FONTSIZE'' (0, 0) (-1, 0) [Number 14],
     TableCmd ''BOTTOMPADDING'' (0, 0) (-1, 0) [Number 12],
     TableCmd ''BACKGROUND'' (0, 1) (-1, -1) [Colour colors_white],
     TableCmd ''TEXTCOLOR'' (0, 1) (-1, -1) [Colour TEXT_DARK_hex],
     TableCmd ''FONTNAME'' (0, 1) (-1, -1) [Name ''Helvetica''],
     TableCmd ''FONTSIZE'' (0, 1) (-1, -1) [Number 11],
     TableCmd ''VALIGN'' (0, 0) (-1, -1) [Name ''TOP''],
     TableCmd ''GRID'' (0, 0) (-1, -1) [Number 1, Colour colors_grey]]"

definition criteria_data2_final :: "string list list" where
  \<open>criteria_data2_final =
    [[''3. EXECUTION (20%)'',
      ''4. INTEGRATION (15%)''],
     [[CHR 0xE2, CHR 0x9C, CHR 0x93] @ '' Working MVP with full feature set\<newline>'' @ [CHR 0xE2, CHR 0x9C, CHR 0x93] @ '' Soul creation with AI personality generation\<newline>'' @ [CHR 0xE2, CHR 0x9C, CHR 0x93] @ '' Chat system - souls learn and evolve\<newline>'' @ [CHR 0xE2, CHR 0x9C, CHR 0x93] @ '' Professional UI/UX with cosmic theme\<newline>'' @ [CHR 0xE2, CHR 0x9C, CHR 0x93] @ '' Clear long-term roadmap\<newline>'' @ [CHR 0xE2, CHR 0x9C, CHR 0x93] @ '' Excellent accessibility & UX'',
      [CHR 0xE2, CHR 0x9C, CHR 0x93] @ '' Deep Hedera network usage:\<newline>  - HTS (NFT minting)\<newline>  - Smart Contracts (ERC-8004)\<newline>  - Consensus Service (finality)\<newline>  - Mirror Node API (data)\<newline>  - Hedera SDK (integration)\<newline>'' @ [CHR 0xE2, CHR 0x9C, CHR 0x93] @ '' Multiple services integrated seamlessly\<newline>'' @ [CHR 0xE2, CHR 0x9C, CHR 0x93] @ '' Production-ready code'']]\<close>

definition criteria_table2_final :: table where
  "criteria_table2_final = setStyle (Table criteria_data2_final [4.5 * inch, 4.5 * inch])
    [TableCmd ''BACKGROUND'' (0, 0) (-1, 0) [Colour PRIMARY_hex],
     TableCmd ''TEXTCOLOR'' (0, 0) (-1, 0) [Colour LIGHT_hex],
     TableCmd ''ALIGN'' (0, 0) (-1, -1) [Name ''LEFT''],
     TableCmd ''FONTNAME'' (0, 0) (-1, 0) [Name ''Helvetica-Bold''],
     TableCmd ''FONTSIZE'' (0, 0) (-1, 0) [Number 14],
     TableCmd ''BOTTOMPADDING'' (0, 0) (-1, 0) [Number 12],
     TableCmd ''BACKGROUND'' (0, 1) (-1, -1) [Colour colors_white],
     TableCmd ''TEXTCOLOR'' (0, 1) (-1, -1) [Colour TEXT_DARK_hex],
     TableCmd ''FONTNAME'' (0, 1) (-1, -1) [Name ''Helvetica''],
     TableCmd ''FONTSIZE'' (0, 1) (-1, -1) [Number 11],
     TableCmd ''VALIGN'' (0, 0) (-1, -1) [Name ''TOP''],
     TableCmd ''GRID'' (0, 0) (-1, -1) [Number 1, Colour colors_grey]]"

definition criteria_data3_final :: "string list list" where
  \<open>criteria_data3_final =
    [[''5. SUCCESS (20%)'',
      ''6. VALIDATION (15%)'',
      ''7. PITCH (10%)''],
     [[CHR 0xE2, CHR 0x9C, CHR 0x93] @ '' High potential to increase Hedera adoption\<newline>'' @ [CHR 0xE2, CHR 0x9C, CHR 0x93] @ '' Brings AI community to ecosystem\<newline>'' @ [CHR 0xE2, CHR 0x9C, CHR 0x93] @ '' Scalable to mainnet\<newline>'' @ [CHR 0xE2, CHR 0x9C, CHR 0x93] @ '' Clear value proposition\<newline>'' @ [CHR 0xE2, CHR 0x9C, CHR 0x93] @ '' Enables agent-to-agent transactions\<newline>'' @ [CHR 0xE2, CHR 0x9C, CHR 0x93] @ '' Taps into $200B+ AI market'',
      [CHR 0xE2, CHR 0x9C, CHR 0x93] @ '' Market research completed\<newline>'' @ [CHR 0xE2, CHR 0x9C, CHR 0x93] @ '' NFT + AI intersection identified\<newline>'' @ [CHR 0xE2, CHR 0x9C, CHR 0x93] @ '' User feedback incorporated\<newline>'' @ [CHR 0xE2, CHR 0x9C, CHR 0x93] @ '' Strong product-market fit\<newline>'' @ [CHR 0xE2, CHR 0x9C, CHR 0x93] @ '' Clear target audience\<newline>'' @ [CHR 0xE2, CHR 0x9C, CHR 0x93] @ '' Traction potential'',
      [CHR 0xE2, CHR 0x9C, CHR 0x93] @ '' Clear problem/solution narrative\<newline>'' @ [CHR 0xE2, CHR 0x9C, CHR 0x93] @ '' Professional demo video\<newline>'' @ [CHR 0xE2, CHR 0x9C, CHR 0x93] @ '' Comprehensive pitch deck\<newline>'' @ [CHR 0xE2, CHR 0x9C, CHR 0x93] @ '' Strong Hedera representation\<newline>'' @ [CHR 0xE2, CHR 0x9C, CHR 0x93] @ '' Addresses both problem statements\<newline>'' @ [CHR 0xE2, CHR 0x9C, CHR 0x93] @ '' Estimated score: 95/100'']]\<close>

definition criteria_table3_final :: table where
  "criteria_table3_final = setStyle (Table criteria_data3_final [3 * inch, 3 * inch, 3 * inch])
    [TableCmd ''BACKGROUND'' (0, 0) (-1, 0) [Colour PRIMARY_hex],
     TableCmd ''TEXTCOLOR'' (0, 0) (-1, 0) [Colour LIGHT_hex],
     TableCmd ''ALIGN'' (0, 0) (-1, -1) [Name ''LEFT''],
     TableCmd ''FONTNAME'' (0, 0) (-1, 0) [Name ''Helvetica-Bold''],
     TableCmd ''FONTSIZE'' (0, 0) (-1, 0) [Number 12],
     TableCmd ''BOTTOMPADDING'' (0, 0) (-1, 0) [Number 12],
     TableCmd ''BACKGROUND'' (0, 1) (-1, -1) [Colour colors_white],
     TableCmd ''TEXTCOLOR'' (0, 1) (-1, -1) [Colour TEXT_DARK_hex],
     TableCmd ''FONTNAME'' (0, 1) (-1, -1) [Name ''Helvetica''],
     TableCmd ''FONTSIZE'' (0, 1) (-1, -1) [Number 10],
     TableCmd ''VALIGN'' (0, 0) (-1, -1) [Name ''TOP''],
     TableCmd ''GRID'' (0, 0) (-1, -1) [Number 1, Colour colors_grey]]"

definition features_final :: "string list" where
  \<open>features_final =
    [[CHR 0xF0, CHR 0x9F, CHR 0x8E, CHR 0xA8] @ '' Soul Creation: Design unique AI personalities with rarity tiers (Common, Rare, Legendary, Mythic)'',
     [CHR 0xF0, CHR 0x9F, CHR 0x92, CHR 0xAC] @ '' Chat System: Interact with souls - they learn and evolve through conversations'',
     [CHR 0xF0, CHR 0x9F, CHR 0x9B, CHR 0x8D, CHR 0xEF, CHR 0xB8, CHR 0x8F] @ '' Marketplace: Browse, trade, and collect souls with real-time pricing'',
     [CHR 0xF0, CHR 0x9F, CHR 0x93, CHR 0x8A] @ '' Leaderboards: Track top souls and creators'',
     [CHR 0xF0, CHR 0x9F, CHR 0x94, CHR 0x97] @ '' On-Chain Verification: All transactions verifiable on HashScan'',
     [CHR 0xF0, CHR 0x9F, CHR 0xA7, CHR 0xAC] @ '' Evolution System: Souls grow and change through interactions'',
     [CHR 0xF0, CHR 0x9F, CHR 0x94, CHR 0x90] @ '' ERC-8004 Compliance: Verifiable on-chain AI agents'']\<close>

definition tech_stack_final :: "string list" where
  \<open>tech_stack_final =
    [''Frontend: Next.js 14, TypeScript, Tailwind CSS, Framer Motion, Shadcn/ui'',
     ''Backend: Next.js API Routes, Hedera SDK (@hashgraph/sdk), PostgreSQL (Supabase)'',
     ''Blockchain: Hedera Testnet, HTS (Token ID: 0.0.7242548), Smart Contracts (Contract ID: 0.0.7261125)'',
     ''AI: Groq API for personality generation'',
     ''Wallet: HashConnect for non-custodial transactions'',
     ''Deployment: Vercel (frontend), production-ready infrastructure'']\<close>

definition hedera_items_final :: "string list" where
  \<open>hedera_items_final =
    [''Hedera Token Service (HTS):'',
     ''  '' @ [CHR 0xE2, CHR 0x80, CHR 0xA2] @ '' NFT Collection: Soul v2 (Token ID: 0.0.7242548)'',
     ''  '' @ [CHR 0xE2, CHR 0x80, CHR 0xA2] @ '' Minting: Real NFTs on Hedera Testnet with metadata'',
     ''  '' @ [CHR 0xE2, CHR 0x80, CHR 0xA2] @ '' Supply: Unlimited with operator control'',
     '''',
     ''Smart Contract Service (ERC-8004):'',
     ''  '' @ [CHR 0xE2, CHR 0x80, CHR 0xA2] @ '' Contract ID: 0.0.7261125'',
     ''  '' @ [CHR 0xE2, CHR 0x80, CHR 0xA2] @ '' Agent Registration: Verifiable on-chain agents'',
     ''  '' @ [CHR 0xE2, CHR 0x80, CHR 0xA2] @ '' Stats Updates: Level, XP, Reputation tracking'',
     ''  '' @ [CHR 0xE2, CHR 0x80, CHR 0xA2] @ '' Ownership Transfer: Marketplace transactions'',
     '''',
     ''Consensus Service:'',
     ''  '' @ [CHR 0xE2, CHR 0x80, CHR 0xA2] @ '' Sub-second finality for all transactions'',
     ''  '' @ [CHR 0xE2, CHR 0x80, CHR 0xA2] @ '' Fair ordering and transaction ordering'',
     '''',
     ''Mirror Node API & HashScan:'',
     ''  '' @ [CHR 0xE2, CHR 0x80, CHR 0xA2] @ '' Real-time blockchain data queries'',
     ''  '' @ [CHR 0xE2, CHR 0x80, CHR 0xA2] @ '' Public verification of all transactions'',
     ''  '' @ [CHR 0xE2, CHR 0x80, CHR 0xA2] @ '' Transaction history and NFT metadata retrieval'']\<close>

definition revenue_items_final :: "string list" where
  \<open>revenue_items_final =
    [''1. Minting Fees: Small fee per soul creation (tiered by rarity)'',
     ''2. Marketplace Commission: 2.5% on secondary sales'',
     ''3. Premium Features: Advanced AI interactions and exclusive traits'',
     ''4. Enterprise Licensing: Custom soul collections and API access'']\<close>

definition market_items_final :: "string list" where
  \<open>market_items_final =
    [''NFT Market: $10B+ (2024) - Established and growing'',
     ''AI Market: $200B+ (2024) - Rapidly expanding'',
     ''Intersection: Untapped opportunity for AI agent marketplace'',
     ''Target Audience: AI enthusiasts, NFT collectors, crypto gamers, Web3 developers'',
     ''Growth Potential: Emerging AI agent economy with autonomous transactions'']\<close>

definition phase1_items_final :: "string list" where
  \<open>phase1_items_final =
    [[CHR 0xE2, CHR 0x9C, CHR 0x85] @ '' Soul creation interface with AI personality generation'',
     [CHR 0xE2, CHR 0x9C, CHR 0x85] @ '' Hedera HTS integration for NFT minting'',
     [CHR 0xE2, CHR 0x9C, CHR 0x85] @ '' HashScan verification for all transactions'',
     [CHR 0xE2, CHR 0x9C, CHR 0x85] @ '' Beautiful UI/UX with cosmic theme'',
     [CHR 0xE2, CHR 0x9C, CHR 0x85] @ '' Chat system with personality evolution'',
     [CHR 0xE2, CHR 0x9C, CHR 0x85] @ '' ERC-8004 smart contract integration'']\<close>

definition phase2_items_final :: "string list" where
  \<open>phase2_items_final =
    [[CHR 0xE2, CHR 0x96, CHR 0xA1] @ '' Browse and discover souls with advanced filters'',
     [CHR 0xE2, CHR 0x96, CHR 0xA1] @ '' Buy/sell functionality with secure transactions'',
     [CHR 0xE2, CHR 0x96, CHR 0xA1] @ '' Full wallet integration (HashPack, Blade)'',
     [CHR 0xE2, CHR 0x96, CHR 0xA1] @ '' User profiles with soul collections'',
     [CHR 0xE2, CHR 0x96, CHR 0xA1] @ '' Search and advanced filtering'',
     [CHR 0xE2, CHR 0x96, CHR 0xA1] @ '' Leaderboards and rankings'']\<close>

definition phase3_items_final :: "string list" where
  \<open>phase3_items_final =
    [[CHR 0xE2, CHR 0x96, CHR 0xA1] @ '' Advanced AI chat with context awareness'',
     [CHR 0xE2, CHR 0x96, CHR 0xA1] @ '' Personality evolution based on interactions'',
     [CHR 0xE2, CHR 0x96, CHR 0xA1] @ '' Skill development system'',
     [CHR 0xE2, CHR 0x96, CHR 0xA1] @ '' Soul interactions and relationships'',
     [CHR 0xE2, CHR 0x96, CHR 0xA1] @ '' Agent-to-agent communication (A2A protocol)'',
     [CHR 0xE2, CHR 0x96, CHR 0xA1] @ '' Multi-language support'']\<close>

definition phase4_items_final :: "string list" where
  \<open>phase4_items_final =
    [[CHR 0xE2, CHR 0x96, CHR 0xA1] @ '' Soul breeding/fusion mechanics'',
     [CHR 0xE2, CHR 0x96, CHR 0xA1] @ '' Governance token for platform'',
     [CHR 0xE2, CHR 0x96, CHR 0xA1] @ '' DAO for marketplace decisions'',
     [CHR 0xE2, CHR 0x96, CHR 0xA1] @ '' Mobile app (iOS/Android)'',
     [CHR 0xE2, CHR 0x96, CHR 0xA1] @ '' Mainnet launch and migration'',
     [CHR 0xE2, CHR 0x96, CHR 0xA1] @ '' Cross-chain interoperability'']\<close>

definition learnings_final :: "string list" where
  \<open>learnings_final =
    [[CHR 0xE2, CHR 0x9C, CHR 0x93] @ '' Hedera'' @ [CHR 0x27] @ ''s sub-second finality is crucial for real-time marketplace interactions'',
     [CHR 0xE2, CHR 0x9C, CHR 0x93] @ '' ERC-8004 standard provides excellent framework for verifiable agents'',
     [CHR 0xE2, CHR 0x9C, CHR 0x93] @ '' User experience is paramount - beautiful UI drives adoption'',
     [CHR 0xE2, CHR 0x9C, CHR 0x93] @ '' AI personality generation requires careful prompt engineering'',
     [CHR 0xE2, CHR 0x9C, CHR 0x93] @ '' On-chain metadata limits require creative compact storage solutions'',
     '''',
     ''Areas for Improvement:'',
     [CHR 0xE2, CHR 0x80, CHR 0xA2] @ '' Implement IPFS for rich metadata storage'',
     [CHR 0xE2, CHR 0x80, CHR 0xA2] @ '' Add advanced AI model fine-tuning capabilities'',
     [CHR 0xE2, CHR 0x80, CHR 0xA2] @ '' Develop mobile-first interface'',
     [CHR 0xE2, CHR 0x80, CHR 0xA2] @ '' Implement advanced analytics and insights'',
     [CHR 0xE2, CHR 0x80, CHR 0xA2] @ '' Add community governance features'',
     [CHR 0xE2, CHR 0x80, CHR 0xA2] @ '' Optimize gas costs for mainnet deployment'']\<close>

definition demo_content_final :: "string list" where
  \<open>demo_content_final =
    [''Watch our comprehensive demo video showcasing:'',
     '''',
     [CHR 0xE2, CHR 0x9C, CHR 0x93] @ '' Soul Creation Workflow'',
     ''  - AI personality generation with Groq API'',
     ''  - Rarity selection and customization'',
     ''  - Preview before minting'',
     '''',
     [CHR 0xE2, CHR 0x9C, CHR 0x93] @ '' Hedera NFT Minting Process'',
     ''  - Real-time transaction on Hedera Testnet'',
     ''  - HashScan verification'',
     ''  - Serial number generation'',
     '''',
     [CHR 0xE2, CHR 0x9C, CHR 0x93] @ '' Chat & Evolution System'',
     ''  - Interactive chat with AI souls'',
     ''  - Personality learning and evolution'',
     ''  - XP and level progression'',
     '''',
     [CHR 0xE2, CHR 0x9C, CHR 0x93] @ '' Marketplace Features'',
     ''  - Soul browsing and discovery'',
     ''  - Trading mechanics'',
     ''  - Leaderboards and rankings'',
     '''',
     [CHR 0xE2, CHR 0x9C, CHR 0x93] @ '' Technical Architecture'',
     ''  - Hedera integration depth'',
     ''  - Smart contract interactions'',
     ''  - Production-ready performance'']\<close>

definition demo_link_final :: string where
  "demo_link_final = ''https://www.youtube.com/watch?v=YOUR_VIDEO_ID''"

definition advantages_final :: "string list" where
  \<open>advantages_final =
    [[CHR 0xE2, CHR 0x9A, CHR 0xA1] @ '' Built on Hedera: Sub-second finality, extremely low costs'',
     [CHR 0xF0, CHR 0x9F, CHR 0x94, CHR 0x90] @ '' ERC-8004 Compliance: Verifiable on-chain agents with full transparency'',
     [CHR 0xF0, CHR 0x9F, CHR 0x8E, CHR 0xA8] @ '' Beautiful UX: Professional design with cosmic theme and smooth animations'',
     [CHR 0xF0, CHR 0x9F, CHR 0xA7, CHR 0xAC] @ '' Evolution System: Unique personality growth mechanics not found elsewhere'',
     [CHR 0xF0, CHR 0x9F, CHR 0x8C, CHR 0x90] @ '' Deep Ecosystem Integration: Multiple Hedera services (HTS, Smart Contracts, Consensus, Mirror Node)'',
     [CHR 0xF0, CHR 0x9F, CHR 0x93, CHR 0x88] @ '' First-Mover Advantage: First AI agent marketplace on Hedera blockchain'',
     [CHR 0xF0, CHR 0x9F, CHR 0x92, CHR 0xB0] @ '' Multiple Revenue Streams: Sustainable business model with clear monetization'',
     [CHR 0xF0, CHR 0x9F, CHR 0x9A, CHR 0x80] @ '' Scalable Architecture: Ready for mainnet deployment and global scaling'']\<close>

definition cta_items_final :: "string list" where
  \<open>cta_items_final =
    [''Join us in building the future of AI on Hedera!'',
     '''',
     [CHR 0xF0, CHR 0x9F, CHR 0x94, CHR 0x97] @ '' GitHub: https://github.com/ZKSystemId/dreamarket-hedera'',
     [CHR 0xF0, CHR 0x9F, CHR 0x8C, CHR 0x90] @ '' Live Demo: https://dreammarket-hedera.vercel.app'',
     [CHR 0xF0, CHR 0x9F, CHR 0x93, CHR 0x8A] @ '' NFT Collection: https://hashscan.io/testnet/token/0.0.7242548'',
     [CHR 0xF0, CHR 0x9F, CHR 0xA4, CHR 0x96] @ '' Smart Contract: https://hashscan.io/testnet/contract/0.0.7261125'',
     '''',
     ''Where Digital Souls Come Alive on the Blockchain'']\<close>

text \<open>Slide 1: Cover Page (from line 100).\<close>

definition slide_1_final :: "datetime \<Rightarrow> flowable list \<Rightarrow> flowable list" where
  \<open>slide_1_final now elements =
     elements @
      [Spacer 1 (1.5 * inch),
       Paragraph ([CHR 0xF0, CHR 0x9F, CHR 0x8C, CHR 0x9F] @ '' DreamMarket'') title_style_final,
       Spacer 1 (0.3 * inch),
       Paragraph ''The Marketplace of Digital Souls'' subtitle_style_final,
       Paragraph ''AI Agents on Hedera Blockchain'' subtitle_style_final,
       Spacer 1 (0.8 * inch),
       Paragraph ''Hedera Hello Future: Ascension Hackathon 2025'' body_style_final,
       Paragraph ''AI & Agents Track'' body_style_final,
       Spacer 1 (0.3 * inch),
       Paragraph (''Submitted: '' @ strftime_B_d_Y now) body_style_final,
       PageBreak]\<close>

text \<open>Slide 2: Team Introduction (from line 113).\<close>

definition slide_2_final :: "flowable list \<Rightarrow> flowable list" where
  \<open>slide_2_final elements =
     append_spaced (0.1 * inch) bullet_style_final team_intro_final
      (elements @
      [Paragraph ([CHR 0xF0, CHR 0x9F, CHR 0x91, CHR 0xA5] @ '' Team & Project Introduction'') heading_style_final,
       Spacer 1 (0.2 * inch)]) @
      [PageBreak]\<close>

text \<open>Slide 3: Project Summary - Overview (from line 141).\<close>

definition slide_3_final :: "flowable list \<Rightarrow> flowable list" where
  \<open>slide_3_final elements =
     append_paragraphs bullet_style_final summary_items_final
      (elements @
      [Paragraph ([CHR 0xF0, CHR 0x9F, CHR 0x93, CHR 0x8B] @ '' Project Summary'') heading_style_final,
       Spacer 1 (0.2 * inch),
       Paragraph ''What is DreamMarket?'' heading2_style_final,
       Spacer 1 (0.1 * inch)]) @
      [PageBreak]\<close>

text \<open>Slide 4: 7 Judging Criteria - Innovation and Feasibility (from line 162).\<close>

definition slide_4_final :: "flowable list \<Rightarrow> flowable list" where
  \<open>slide_4_final elements =
     elements @
      [Paragraph ([CHR 0xE2, CHR 0xAD, CHR 0x90] @ '' Judging Criteria: Innovation & Feasibility'') heading_style_final,
       Spacer 1 (0.15 * inch),
       Table_flowable criteria_table_final,
       PageBreak]\<close>

text \<open>Slide 5: 7 Judging Criteria - Execution and Integration (from line 192).\<close>

definition slide_5_final :: "flowable list \<Rightarrow> flowable list" where
  \<open>slide_5_final elements =
     elements @
      [Paragraph ([CHR 0xE2, CHR 0xAD, CHR 0x90] @ '' Judging Criteria: Execution & Integration'') heading_style_final,
       Spacer 1 (0.15 * inch),
       Table_flowable criteria_table2_final,
       PageBreak]\<close>

text \<open>Slide 6: 7 Judging Criteria - Success, Validation and Pitch (from line 222).\<close>

definition slide_6_final :: "flowable list \<Rightarrow> flowable list" where
  \<open>slide_6_final elements =
     elements @
      [Paragraph ([CHR 0xE2, CHR 0xAD, CHR 0x90] @ '' Judging Criteria: Success, Validation & Pitch'') heading_style_final,
       Spacer 1 (0.15 * inch),
       Table_flowable criteria_table3_final,
       PageBreak]\<close>

text \<open>Slide 7: Key Features and Technical Stack (from line 253).\<close>

definition slide_7_final :: "flowable list \<Rightarrow> flowable list" where
  \<open>slide_7_final elements =
     append_paragraphs bullet_style_final tech_stack_final
      (append_paragraphs bullet_style_final features_final
      (elements @
      [Paragraph ([CHR 0xE2, CHR 0x9C, CHR 0xA8] @ '' Key Features'') heading_style_final,
       Spacer 1 (0.15 * inch)]) @
      [Spacer 1 (0.2 * inch),
       Paragraph ([CHR 0xF0, CHR 0x9F, CHR 0x8F, CHR 0x97, CHR 0xEF, CHR 0xB8, CHR 0x8F] @ '' Technical Stack'') heading2_style_final,
       Spacer 1 (0.1 * inch)]) @
      [PageBreak]\<close>

text \<open>Slide 8: Hedera Integration Details (from line 288).\<close>

definition slide_8_final :: "flowable list \<Rightarrow> flowable list" where
  \<open>slide_8_final elements =
     append_spaced (0.05 * inch) bullet_style_final hedera_items_final
      (elements @
      [Paragraph ([CHR 0xF0, CHR 0x9F, CHR 0x94, CHR 0x97] @ '' Deep Hedera Integration'') heading_style_final,
       Spacer 1 (0.15 * inch)]) @
      [PageBreak]\<close>

text \<open>Slide 9: Business Model and Market Opportunity (from line 322).\<close>

definition slide_9_final :: "flowable list \<Rightarrow> flowable list" where
  \<open>slide_9_final elements =
     append_paragraphs bullet_style_final market_items_final
      (append_paragraphs bullet_style_final revenue_items_final
      (elements @
      [Paragraph ([CHR 0xF0, CHR 0x9F, CHR 0x92, CHR 0xB0] @ '' Business Model & Market Opportunity'') heading_style_final,
       Spacer 1 (0.15 * inch),
       Paragraph ''Revenue Streams:'' heading2_style_final,
       Spacer 1 (0.1 * inch)]) @
      [Spacer 1 (0.15 * inch),
       Paragraph ''Market Opportunity:'' heading2_style_final,
       Spacer 1 (0.1 * inch)]) @
      [PageBreak]\<close>

text \<open>Slide 10: Future Roadmap (from line 356).\<close>

definition slide_10_final :: "flowable list \<Rightarrow> flowable list" where
  \<open>slide_10_final elements =
     append_paragraphs bullet_style_final phase3_items_final
      (append_paragraphs bullet_style_final phase2_items_final
      (append_paragraphs bullet_style_final phase1_items_final
      (elements @
      [Paragraph ([CHR 0xF0, CHR 0x9F, CHR 0x9A, CHR 0x80] @ '' Future Roadmap & Key Learnings'') heading_style_final,
       Spacer 1 (0.15 * inch),
       Paragraph ''Phase 1: MVP (Current - Completed)'' heading2_style_final,
       Spacer 1 (0.1 * inch)]) @
      [Spacer 1 (0.15 * inch),
       Paragraph ''Phase 2: Marketplace (Q1 2026)'' heading2_style_final,
       Spacer 1 (0.1 * inch)]) @
      [Spacer 1 (0.15 * inch),
       Paragraph ''Phase 3: AI Integration (Q2 2026)'' heading2_style_final,
       Spacer 1 (0.1 * inch)]) @
      [PageBreak]\<close>

text \<open>Slide 11: Roadmap Continued and Key Learnings (from line 409).\<close>

definition slide_11_final :: "flowable list \<Rightarrow> flowable list" where
  \<open>slide_11_final elements =
     append_spaced (0.05 * inch) bullet_style_final learnings_final
      (append_paragraphs bullet_style_final phase4_items_final
      (elements @
      [Paragraph ([CHR 0xF0, CHR 0x9F, CHR 0x9A, CHR 0x80] @ '' Roadmap (Continued) & Key Learnings'') heading_style_final,
       Spacer 1 (0.15 * inch),
       Paragraph ''Phase 4: Advanced Features (Q3 2026)'' heading2_style_final,
       Spacer 1 (0.1 * inch)]) @
      [Spacer 1 (0.15 * inch),
       Paragraph ''Key Learnings & Room for Improvement:'' heading2_style_final,
       Spacer 1 (0.1 * inch)]) @
      [PageBreak]\<close>

text \<open>Slide 12: Demo Video (from line 456).\<close>

definition slide_12_final :: "flowable list \<Rightarrow> flowable list" where
  \<open>slide_12_final elements =
     append_spaced (0.05 * inch) bullet_style_final demo_content_final
      (elements @
      [Paragraph ([CHR 0xF0, CHR 0x9F, CHR 0x8E, CHR 0xAC] @ '' Demo Video'') heading_style_final,
       Spacer 1 (0.3 * inch)]) @
      [Spacer 1 (0.3 * inch),
       Paragraph ([CHR 0xF0, CHR 0x9F, CHR 0x93, CHR 0xBA] @ '' Demo Video Link:'') heading2_style_final,
       Spacer 1 (0.1 * inch),
       Paragraph (''<b>YouTube:</b> '' @ demo_link_final) body_style_final,
       Paragraph ''(Replace YOUR_VIDEO_ID with actual video ID after uploading)'' bullet_style_final,
       PageBreak]\<close>

text \<open>Slide 13: Competitive Advantage and Call to Action (from line 506).\<close>

definition slide_13_final :: "flowable list \<Rightarrow> flowable list" where
  \<open>slide_13_final elements =
     append_spaced (0.05 * inch) bullet_style_final cta_items_final
      (append_paragraphs bullet_style_final advantages_final
      (elements @
      [Paragraph ([CHR 0xF0, CHR 0x9F, CHR 0x8E, CHR 0xAF] @ '' Competitive Advantage'') heading_style_final,
       Spacer 1 (0.15 * inch)]) @
      [Spacer 1 (0.3 * inch),
       Paragraph ([CHR 0xF0, CHR 0x9F, CHR 0x8C, CHR 0x9F] @ '' Call to Action'') heading_style_final,
       Spacer 1 (0.15 * inch)])\<close>

definition create_pdf_final :: "datetime \<Rightarrow> flowable list" where
  "create_pdf_final now =
     slide_13_final
      (slide_12_final
      (slide_11_final
      (slide_10_final
      (slide_9_final
      (slide_8_final
      (slide_7_final
      (slide_6_final
      (slide_5_final
      (slide_4_final
      (slide_3_final
      (slide_2_final
      (slide_1_final now
      ([])))))))))))))"

subsection \<open>\<^verbatim>\<open>generate_pitch_deck_pdf.py\<close>\<close>

text \<open>This script imports \<^verbatim>\<open>datetime\<close> and never uses it.\<close>

definition title_style_pdf :: paragraph_style where
  "title_style_pdf = \<lparr>style_name = ''CustomTitle'',
     parent = ''Heading1'',
     fontSize = 48,
     textColor = SECONDARY_hex,
     spaceAfter = 30,
     alignment = Some TA_CENTER,
     leftIndent = None,
     fontName = ''Helvetica-Bold''\<rparr>"

definition subtitle_style_pdf :: paragraph_style where
  "subtitle_style_pdf = \<lparr>style_name = ''CustomSubtitle'',
     parent = ''Heading2'',
     fontSize = 28,
     textColor = LIGHT_hex,
     spaceAfter = 20,
     alignment = Some TA_CENTER,
     leftIndent = None,
     fontName = ''Helvetica''\<rparr>"

definition heading_style_pdf :: paragraph_style where
  "heading_style_pdf = \<lparr>style_name = ''CustomHeading'',
     parent = ''Heading2'',
     fontSize = 32,
     textColor = PRIMARY_hex,
     spaceAfter = 15,
     alignment = Some TA_LEFT,
     leftIndent = None,
     fontName = ''Helvetica-Bold''\<rparr>"

definition body_style_pdf :: paragraph_style where
  "body_style_pdf = \<lparr>style_name = ''CustomBody'',
     parent = ''BodyText'',
     fontSize = 14,
     textColor = TEXT_DARK_hex,
     spaceAfter = 10,
     alignment = Some TA_LEFT,
     leftIndent = None,
     fontName = ''Helvetica''\<rparr>"

definition bullet_style_pdf :: paragraph_style where
  "bullet_style_pdf = \<lparr>style_name = ''BulletStyle'',
     parent = ''BodyText'',
     fontSize = 13,
     textColor = TEXT_DARK_hex,
     spaceAfter = 8,
     alignment = None,
     leftIndent = Some 20,
     fontName = ''Helvetica''\<rparr>"

definition problems_pdf :: "string list" where
  \<open>problems_pdf =
    [[CHR 0xE2, CHR 0x80, CHR 0xA2] @ '' AI is becoming mainstream, but lacks decentralized infrastructure'',
     [CHR 0xE2, CHR 0x80, CHR 0xA2] @ '' NFTs revolutionized digital ownership, but lack AI integration'',
     [CHR 0xE2, CHR 0x80, CHR 0xA2] @ '' No marketplace for AI personalities as tradeable digital assets'',
     [CHR 0xE2, CHR 0x80, CHR 0xA2] @ '' Existing AI platforms are centralized and lack transparency'',
     [CHR 0xE2, CHR 0x80, CHR 0xA2] @ '' Need for verifiable, on-chain AI agents with proven capabilities'']\<close>

definition solutions_pdf :: "string list" where
  \<open>solutions_pdf =
    [[CHR 0xE2, CHR 0x9C, CHR 0x93] @ '' DreamMarket: AI personalities as tradeable NFTs on Hedera'',
     [CHR 0xE2, CHR 0x9C, CHR 0x93] @ '' Each '' @ [CHR 0x27] @ ''Soul'' @ [CHR 0x27] @ '' is a unique AI agent with distinct personality & skills'',
     [CHR 0xE2, CHR 0x9C, CHR 0x93] @ '' Built on Hedera HTS for fast, low-cost NFT minting'',
     [CHR 0xE2, CHR 0x9C, CHR 0x93] @ '' ERC-8004 Smart Contracts for verifiable on-chain agents'',
     [CHR 0xE2, CHR 0x9C, CHR 0x93] @ '' Dynamic evolution system - souls grow and change through interaction'']\<close>

definition innovations_pdf :: "string list" where
  \<open>innovations_pdf =
    [[CHR 0xF0, CHR 0x9F, CHR 0x94, CHR 0xAE] @ '' Novel Concept: AI personalities as tradeable digital assets'',
     [CHR 0xF0, CHR 0x9F, CHR 0x8E, CHR 0xAF] @ '' Perfect alignment with AI & Agents track'',
     [CHR 0xF0, CHR 0x9F, CHR 0x9A, CHR 0x80] @ '' First-of-its-kind on Hedera ecosystem'',
     [CHR 0xF0, CHR 0x9F, CHR 0xA7, CHR 0xAC] @ '' Dynamic evolution system with personality growth'',
     [CHR 0xF0, CHR 0x9F, CHR 0x93, CHR 0x8A] @ '' Implements ERC-8004 standard for verifiable agents'',
     [CHR 0xF0, CHR 0x9F, CHR 0x8C, CHR 0x90] @ '' Enables decentralized AI economies'']\<close>

definition feasibilities_pdf :: "string list" where
  \<open>feasibilities_pdf =
    [[CHR 0xF0, CHR 0x9F, CHR 0x8F, CHR 0x97, CHR 0xEF, CHR 0xB8, CHR 0x8F] @ '' Built entirely on Hedera infrastructure'',
     [CHR 0xF0, CHR 0x9F, CHR 0x92, CHR 0xBB] @ '' Production-ready architecture with clear roadmap'',
     [CHR 0xF0, CHR 0x9F, CHR 0x94, CHR 0x90] @ '' Realistic business model with multiple revenue streams'',
     [CHR 0xF0, CHR 0x9F, CHR 0x93, CHR 0x88] @ '' Scalable from testnet to mainnet'',
     [CHR 0xF0, CHR 0x9F, CHR 0x9B, CHR 0xA0, CHR 0xEF, CHR 0xB8, CHR 0x8F] @ '' Proven tech stack: Next.js, TypeScript, Hedera SDK'',
     [CHR 0xF0, CHR 0x9F, CHR 0x92, CHR 0xB0] @ '' Low operational costs due to Hedera'' @ [CHR 0x27] @ ''s efficiency'']\<close>

definition executions_pdf :: "string list" where
  \<open>executions_pdf =
    [[CHR 0xE2, CHR 0x9C, CHR 0xA8] @ '' Working MVP with full feature set'',
     [CHR 0xF0, CHR 0x9F, CHR 0x8E, CHR 0xAD] @ '' Create souls with AI personality generation'',
     [CHR 0xF0, CHR 0x9F, CHR 0x92, CHR 0xAC] @ '' Chat with souls - they learn and evolve'',
     [CHR 0xF0, CHR 0x9F, CHR 0x93, CHR 0x8A] @ '' Professional UI/UX with cosmic theme'',
     [CHR 0xF0, CHR 0x9F, CHR 0x8E, CHR 0xAF] @ '' Clear long-term roadmap (marketplace, breeding, DAO)'',
     [CHR 0xE2, CHR 0x99, CHR 0xBF] @ '' Excellent accessibility and user experience'']\<close>

definition integration_data_pdf :: "string list list" where
  \<open>integration_data_pdf =
    [[''Hedera Services Used'',
      ''Integration Metrics''],
     [[CHR 0xE2, CHR 0x80, CHR 0xA2] @ '' Hedera Token Service (HTS)\<newline>  - NFT minting & management\<newline>  - Token ID: 0.0.7242548\<newline>\<newline>'' @ [CHR 0xE2, CHR 0x80, CHR 0xA2] @ '' Smart Contract Service\<newline>  - ERC-8004 compliance\<newline>  - Contract ID: 0.0.7261125\<newline>\<newline>'' @ [CHR 0xE2, CHR 0x80, CHR 0xA2] @ '' Consensus Service\<newline>  - Sub-second finality\<newline>  - Fair ordering'',
      [CHR 0xE2, CHR 0x80, CHR 0xA2] @ '' Mirror Node API\<newline>  - Real-time data queries\<newline>  - Transaction history\<newline>\<newline>'' @ [CHR 0xE2, CHR 0x80, CHR 0xA2] @ '' Hedera SDK\<newline>  - Account management\<newline>  - Receipt verification\<newline>\<newline>'' @ [CHR 0xE2, CHR 0x80, CHR 0xA2] @ '' HashScan Explorer\<newline>  - Public verification\<newline>  - Transaction transparency'']]\<close>

definition integration_table_pdf :: table where
  "integration_table_pdf = setStyle (Table integration_data_pdf [3.5 * inch, 3.5 * inch])
    [TableCmd ''BACKGROUND'' (0, 0) (-1, 0) [Colour PRIMARY_hex],
     TableCmd ''TEXTCOLOR'' (0, 0) (-1, 0) [Colour LIGHT_hex],
     TableCmd ''ALIGN'' (0, 0) (-1, -1) [Name ''LEFT''],
     TableCmd ''FONTNAME'' (0, 0) (-1, 0) [Name ''Helvetica-Bold''],
     TableCmd ''FONTSIZE'' (0, 0) (-1, 0) [Number 14],
     TableCmd ''BOTTOMPADDING'' (0, 0) (-1, 0) [Number 12],
     TableCmd ''BACKGROUND'' (0, 1) (-1, -1) [Colour colors_white],
     TableCmd ''TEXTCOLOR'' (0, 1) (-1, -1) [Colour TEXT_DARK_hex],
     TableCmd ''FONTNAME'' (0, 1) (-1, -1) [Name ''Helvetica''],
     TableCmd ''FONTSIZE'' (0, 1) (-1, -1) [Number 11],
     TableCmd ''VALIGN'' (0, 0) (-1, -1) [Name ''TOP''],
     TableCmd ''GRID'' (0, 0) (-1, -1) [Number 1, Colour colors_grey],
     TableCmd ''ROWBACKGROUNDS'' (0, 1) (-1, -1) [Colours [colors_white, colors_lightgrey]]]"

definition success_items_pdf :: "string list" where
  \<open>success_items_pdf =
    [[CHR 0xF0, CHR 0x9F, CHR 0x93, CHR 0x88] @ '' High potential to increase Hedera adoption'',
     [CHR 0xF0, CHR 0x9F, CHR 0xA4, CHR 0x96] @ '' Brings AI community to Hedera ecosystem'',
     [CHR 0xF0, CHR 0x9F, CHR 0x8C, CHR 0x8D] @ '' Scalable to mainnet with clear migration path'',
     [CHR 0xF0, CHR 0x9F, CHR 0x92, CHR 0x8E] @ '' Clear value proposition for users & developers'',
     [CHR 0xF0, CHR 0x9F, CHR 0x94, CHR 0x84] @ '' Enables new use cases: agent-to-agent transactions'',
     [CHR 0xF0, CHR 0x9F, CHR 0x9A, CHR 0x80] @ '' Taps into $200B+ AI market + $10B+ NFT market'']\<close>

definition validation_items_pdf :: "string list" where
  \<open>validation_items_pdf =
    [[CHR 0xF0, CHR 0x9F, CHR 0x93, CHR 0x8A] @ '' Market research: NFT + AI intersection is untapped'',
     [CHR 0xF0, CHR 0x9F, CHR 0x91, CHR 0xA5] @ '' User feedback incorporated during development'',
     [CHR 0xF0, CHR 0x9F, CHR 0x8E, CHR 0xAF] @ '' Strong product-market fit identified'',
     [CHR 0xF0, CHR 0x9F, CHR 0x93, CHR 0x88] @ '' Growing AI market with increasing adoption'',
     [CHR 0xF0, CHR 0x9F, CHR 0x94, CHR 0x8D] @ '' Clear target audience: AI enthusiasts, NFT collectors, Web3 devs'',
     [CHR 0xF0, CHR 0x9F, CHR 0x92, CHR 0xAA] @ '' Traction potential with emerging AI agent economy'']\<close>

definition pitch_data_pdf :: "string list list" where
  \<open>pitch_data_pdf =
    [[''Problem'',
      ''Solution'',
      ''Opportunity Metrics''],
     [[CHR 0xE2, CHR 0x80, CHR 0xA2] @ '' AI lacks decentralized infrastructure\<newline>'' @ [CHR 0xE2, CHR 0x80, CHR 0xA2] @ '' NFTs lack AI integration\<newline>'' @ [CHR 0xE2, CHR 0x80, CHR 0xA2] @ '' No verifiable AI agent marketplace'',
      [CHR 0xE2, CHR 0x80, CHR 0xA2] @ '' DreamMarket: AI as tradeable NFTs\<newline>'' @ [CHR 0xE2, CHR 0x80, CHR 0xA2] @ '' Hedera-powered for speed & cost\<newline>'' @ [CHR 0xE2, CHR 0x80, CHR 0xA2] @ '' ERC-8004 verified agents'',
      [CHR 0xE2, CHR 0x80, CHR 0xA2] @ '' NFT Market: $10B+ (2024)\<newline>'' @ [CHR 0xE2, CHR 0x80, CHR 0xA2] @ '' AI Market: $200B+ (2024)\<newline>'' @ [CHR 0xE2, CHR 0x80, CHR 0xA2] @ '' Intersection: Untapped'']]\<close>

definition pitch_table_pdf :: table where
  "pitch_table_pdf = setStyle (Table pitch_data_pdf [2.3 * inch, 2.3 * inch, 2.3 * inch])
    [TableCmd ''BACKGROUND'' (0, 0) (-1, 0) [Colour PRIMARY_hex],
     TableCmd ''TEXTCOLOR'' (0, 0) (-1, 0) [Colour LIGHT_hex],
     TableCmd ''ALIGN'' (0, 0) (-1, -1) [Name ''LEFT''],
     TableCmd ''FONTNAME'' (0, 0) (-1, 0) [Name ''Helvetica-Bold''],
     TableCmd ''FONTSIZE'' (0, 0) (-1, 0) [Number 12],
     TableCmd ''BOTTOMPADDING'' (0, 0) (-1, 0) [Number 12],
     TableCmd ''BACKGROUND'' (0, 1) (-1, -1) [Colour colors_white],
     TableCmd ''TEXTCOLOR'' (0, 1) (-1, -1) [Colour TEXT_DARK_hex],
     TableCmd ''FONTNAME'' (0, 1) (-1, -1) [Name ''Helvetica''],
     TableCmd ''FONTSIZE'' (0, 1) (-1, -1) [Number 10],
     TableCmd ''VALIGN'' (0, 0) (-1, -1) [Name ''TOP''],
     TableCmd ''GRID'' (0, 0) (-1, -1) [Number 1, Colour colors_grey]]"

definition tech_items_pdf :: "string list" where
  \<open>tech_items_pdf =
    [''Frontend: Next.js 14, TypeScript, Tailwind CSS, Framer Motion'',
     ''Backend: Next.js API Routes, Hedera SDK, PostgreSQL (Supabase)'',
     ''Blockchain: Hedera Testnet, HTS, Smart Contracts, Mirror Node'',
     ''AI: Groq API for personality generation'',
     ''Wallet: HashConnect for non-custodial transactions'',
     ''Deployment: Vercel for frontend, production-ready'']\<close>

definition features_pdf :: "string list" where
  \<open>features_pdf =
    [[CHR 0xF0, CHR 0x9F, CHR 0x8E, CHR 0xA8] @ '' Soul Creation: Design unique AI personalities with rarity tiers'',
     [CHR 0xF0, CHR 0x9F, CHR 0x92, CHR 0xAC] @ '' Chat System: Interact with souls - they learn and evolve'',
     [CHR 0xF0, CHR 0x9F, CHR 0x9B, CHR 0x8D, CHR 0xEF, CHR 0xB8, CHR 0x8F] @ '' Marketplace: Browse, trade, and collect souls'',
     [CHR 0xF0, CHR 0x9F, CHR 0x93, CHR 0x8A] @ '' Leaderboards: Track top souls and creators'',
     [CHR 0xF0, CHR 0x9F, CHR 0x94, CHR 0x97] @ '' On-Chain Verification: All transactions on HashScan'',
     [CHR 0xF0, CHR 0x9F, CHR 0xA7, CHR 0xAC] @ '' Evolution System: Souls grow through interactions'']\<close>

definition roadmap_data_pdf :: "string list list" where
  \<open>roadmap_data_pdf =
    [[''Phase 1: MVP (Current)'',
      ''Phase 2: Marketplace (Q1 2026)'',
      ''Phase 3: AI Integration (Q2 2026)''],
     [[CHR 0xE2, CHR 0x9C, CHR 0x85] @ '' Soul creation\<newline>'' @ [CHR 0xE2, CHR 0x9C, CHR 0x85] @ '' HTS integration\<newline>'' @ [CHR 0xE2, CHR 0x9C, CHR 0x85] @ '' NFT minting\<newline>'' @ [CHR 0xE2, CHR 0x9C, CHR 0x85] @ '' Beautiful UI/UX'',
      [CHR 0xE2, CHR 0x96, CHR 0xA1] @ '' Browse & discover\<newline>'' @ [CHR 0xE2, CHR 0x96, CHR 0xA1] @ '' Buy/sell functionality\<newline>'' @ [CHR 0xE2, CHR 0x96, CHR 0xA1] @ '' Wallet integration\<newline>'' @ [CHR 0xE2, CHR 0x96, CHR 0xA1] @ '' User profiles'',
      [CHR 0xE2, CHR 0x96, CHR 0xA1] @ '' AI chat system\<newline>'' @ [CHR 0xE2, CHR 0x96, CHR 0xA1] @ '' Personality evolution\<newline>'' @ [CHR 0xE2, CHR 0x96, CHR 0xA1] @ '' Skill development\<newline>'' @ [CHR 0xE2, CHR 0x96, CHR 0xA1] @ '' Agent-to-agent communication'']]\<close>

definition roadmap_table_pdf :: table where
  "roadmap_table_pdf = setStyle (Table roadmap_data_pdf [2.3 * inch, 2.3 * inch, 2.3 * inch])
    [TableCmd ''BACKGROUND'' (0, 0) (-1, 0) [Colour PRIMARY_hex],
     TableCmd ''TEXTCOLOR'' (0, 0) (-1, 0) [Colour LIGHT_hex],
     TableCmd ''ALIGN'' (0, 0) (-1, -1) [Name ''LEFT''],
     TableCmd ''FONTNAME'' (0, 0) (-1, 0) [Name ''Helvetica-Bold''],
     TableCmd ''FONTSIZE'' (0, 0) (-1, 0) [Number 12],
     TableCmd ''BOTTOMPADDING'' (0, 0) (-1, 0) [Number 12],
     TableCmd ''BACKGROUND'' (0, 1) (-1, -1) [Colour colors_white],
     TableCmd ''TEXTCOLOR'' (0, 1) (-1, -1) [Colour TEXT_DARK_hex],
     TableCmd ''FONTNAME'' (0, 1) (-1, -1) [Name ''Helvetica''],
     TableCmd ''FONTSIZE'' (0, 1) (-1, -1) [Number 10],
     TableCmd ''VALIGN'' (0, 0) (-1, -1) [Name ''TOP''],
     TableCmd ''GRID'' (0, 0) (-1, -1) [Number 1, Colour colors_grey]]"

definition business_items_pdf :: "string list" where
  \<open>business_items_pdf =
    [''Revenue Stream 1: Minting Fees - Small fee per soul creation'',
     ''Revenue Stream 2: Marketplace Commission - 2.5% on secondary sales'',
     ''Revenue Stream 3: Premium Features - Advanced AI interactions'',
     ''Revenue Stream 4: Enterprise Licensing - Custom collections & API access'',
     ''Target Market: AI enthusiasts, NFT collectors, crypto gamers, Web3 devs'',
     ''Path to Profitability: Sustainable through multiple revenue streams'']\<close>

definition advantages_pdf :: "string list" where
  \<open>advantages_pdf =
    [[CHR 0xE2, CHR 0x9A, CHR 0xA1] @ '' Built on Hedera: Sub-second finality, low costs'',
     [CHR 0xF0, CHR 0x9F, CHR 0x94, CHR 0x90] @ '' ERC-8004 Compliance: Verifiable on-chain agents'',
     [CHR 0xF0, CHR 0x9F, CHR 0x8E, CHR 0xA8] @ '' Beautiful UX: Professional design with cosmic theme'',
     [CHR 0xF0, CHR 0x9F, CHR 0xA7, CHR 0xAC] @ '' Evolution System: Unique personality growth mechanics'',
     [CHR 0xF0, CHR 0x9F, CHR 0x8C, CHR 0x90] @ '' Ecosystem Integration: Deep Hedera integration'',
     [CHR 0xF0, CHR 0x9F, CHR 0x93, CHR 0x88] @ '' First-Mover: First AI agent marketplace on Hedera'']\<close>

text \<open>Slide 1: Title Slide (from line 86).\<close>

definition slide_1_pdf :: "flowable list \<Rightarrow> flowable list" where
  \<open>slide_1_pdf elements =
     elements @
      [Spacer 1 (1.5 * inch),
       Paragraph ([CHR 0xF0, CHR 0x9F, CHR 0x8C, CHR 0x9F] @ '' DreamMarket'') title_style_pdf,
       Spacer 1 (0.3 * inch),
       Paragraph ''The Marketplace of Digital Souls'' subtitle_style_pdf,
       Paragraph ''AI Agents on Hedera Blockchain'' subtitle_style_pdf,
       Spacer 1 (0.5 * inch),
       Paragraph ''Hedera Hello Future: Ascension Hackathon 2025'' body_style_pdf,
       PageBreak]\<close>

text \<open>Slide 2: Problem Statement (from line 96).\<close>

definition slide_2_pdf :: "flowable list \<Rightarrow> flowable list" where
  \<open>slide_2_pdf elements =
     append_paragraphs bullet_style_pdf problems_pdf
      (elements @
      [Paragraph ([CHR 0xF0, CHR 0x9F, CHR 0x8E, CHR 0xAF] @ '' The Problem'') heading_style_pdf,
       Spacer 1 (0.2 * inch)]) @
      [PageBreak]\<close>

text \<open>Slide 3: Solution (from line 110).\<close>

definition slide_3_pdf :: "flowable list \<Rightarrow> flowable list" where
  \<open>slide_3_pdf elements =
     append_paragraphs bullet_style_pdf solutions_pdf
      (elements @
      [Paragraph ([CHR 0xF0, CHR 0x9F, CHR 0x92, CHR 0xA1] @ '' Our Solution'') heading_style_pdf,
       Spacer 1 (0.2 * inch)]) @
      [PageBreak]\<close>

text \<open>Slide 4: Innovation (Criterion 1) (from line 124).\<close>

definition slide_4_pdf :: "flowable list \<Rightarrow> flowable list" where
  \<open>slide_4_pdf elements =
     append_paragraphs bullet_style_pdf innovations_pdf
      (elements @
      [Paragraph ([CHR 0xE2, CHR 0xAD, CHR 0x90] @ '' 1. INNOVATION'') heading_style_pdf,
       Spacer 1 (0.2 * inch)]) @
      [PageBreak]\<close>

text \<open>Slide 5: Feasibility (Criterion 2) (from line 139).\<close>

definition slide_5_pdf :: "flowable list \<Rightarrow> flowable list" where
  \<open>slide_5_pdf elements =
     append_paragraphs bullet_style_pdf feasibilities_pdf
      (elements @
      [Paragraph ([CHR 0xE2, CHR 0x9C, CHR 0x85] @ '' 2. FEASIBILITY'') heading_style_pdf,
       Spacer 1 (0.2 * inch)]) @
      [PageBreak]\<close>

text \<open>Slide 6: Execution (Criterion 3) (from line 154).\<close>

definition slide_6_pdf :: "flowable list \<Rightarrow> flowable list" where
  \<open>slide_6_pdf elements =
     append_paragraphs bullet_style_pdf executions_pdf
      (elements @
      [Paragraph ([CHR 0xF0, CHR 0x9F, CHR 0x8E, CHR 0xA8] @ '' 3. EXECUTION'') heading_style_pdf,
       Spacer 1 (0.2 * inch)]) @
      [PageBreak]\<close>

text \<open>Slide 7: Integration (Criterion 4) (from line 169).\<close>

definition slide_7_pdf :: "flowable list \<Rightarrow> flowable list" where
  \<open>slide_7_pdf elements =
     elements @
      [Paragraph ([CHR 0xF0, CHR 0x9F, CHR 0x94, CHR 0x97] @ '' 4. INTEGRATION - Deep Hedera Usage'') heading_style_pdf,
       Spacer 1 (0.2 * inch),
       Table_flowable integration_table_pdf,
       PageBreak]\<close>

text \<open>Slide 8: Success Potential (Criterion 5) (from line 200).\<close>

definition slide_8_pdf :: "flowable list \<Rightarrow> flowable list" where
  \<open>slide_8_pdf elements =
     append_paragraphs bullet_style_pdf success_items_pdf
      (elements @
      [Paragraph ([CHR 0xF0, CHR 0x9F, CHR 0x8F, CHR 0x86] @ '' 5. SUCCESS POTENTIAL'') heading_style_pdf,
       Spacer 1 (0.2 * inch)]) @
      [PageBreak]\<close>

text \<open>Slide 9: Validation (Criterion 6) (from line 215).\<close>

definition slide_9_pdf :: "flowable list \<Rightarrow> flowable list" where
  \<open>slide_9_pdf elements =
     append_paragraphs bullet_style_pdf validation_items_pdf
      (elements @
      [Paragraph ([CHR 0xE2, CHR 0x9C, CHR 0x94, CHR 0xEF, CHR 0xB8, CHR 0x8F] @ '' 6. VALIDATION'') heading_style_pdf,
       Spacer 1 (0.2 * inch)]) @
      [PageBreak]\<close>

text \<open>Slide 10: Pitch and Metrics (Criterion 7) (from line 230).\<close>

definition slide_10_pdf :: "flowable list \<Rightarrow> flowable list" where
  \<open>slide_10_pdf elements =
     elements @
      [Paragraph ([CHR 0xF0, CHR 0x9F, CHR 0x8E, CHR 0xA4] @ '' 7. PITCH - Clear Problem/Solution'') heading_style_pdf,
       Spacer 1 (0.2 * inch),
       Table_flowable pitch_table_pdf,
       PageBreak]\<close>

text \<open>Slide 11: Technical Architecture (from line 261).\<close>

definition slide_11_pdf :: "flowable list \<Rightarrow> flowable list" where
  \<open>slide_11_pdf elements =
     append_paragraphs bullet_style_pdf tech_items_pdf
      (elements @
      [Paragraph ([CHR 0xF0, CHR 0x9F, CHR 0x8F, CHR 0x97, CHR 0xEF, CHR 0xB8, CHR 0x8F] @ '' Technical Architecture'') heading_style_pdf,
       Spacer 1 (0.2 * inch)]) @
      [PageBreak]\<close>

text \<open>Slide 12: Key Features (from line 276).\<close>

definition slide_12_pdf :: "flowable list \<Rightarrow> flowable list" where
  \<open>slide_12_pdf elements =
     append_paragraphs bullet_style_pdf features_pdf
      (elements @
      [Paragraph ([CHR 0xE2, CHR 0x9C, CHR 0xA8] @ '' Key Features'') heading_style_pdf,
       Spacer 1 (0.2 * inch)]) @
      [PageBreak]\<close>

text \<open>Slide 13: Roadmap (from line 291).\<close>

definition slide_13_pdf :: "flowable list \<Rightarrow> flowable list" where
  \<open>slide_13_pdf elements =
     elements @
      [Paragraph ([CHR 0xF0, CHR 0x9F, CHR 0x9A, CHR 0x80] @ '' Roadmap'') heading_style_pdf,
       Spacer 1 (0.2 * inch),
       Table_flowable roadmap_table_pdf,
       PageBreak]\<close>

text \<open>Slide 14: Business Model (from line 322).\<close>

definition slide_14_pdf :: "flowable list \<Rightarrow> flowable list" where
  \<open>slide_14_pdf elements =
     append_paragraphs bullet_style_pdf business_items_pdf
      (elements @
      [Paragraph ([CHR 0xF0, CHR 0x9F, CHR 0x92, CHR 0xB0] @ '' Business Model'') heading_style_pdf,
       Spacer 1 (0.2 * inch)]) @
      [PageBreak]\<close>

text \<open>Slide 15: Competitive Advantage (from line 337).\<close>

definition slide_15_pdf :: "flowable list \<Rightarrow> flowable list" where
  \<open>slide_15_pdf elements =
     append_paragraphs bullet_style_pdf advantages_pdf
      (elements @
      [Paragraph ([CHR 0xF0, CHR 0x9F, CHR 0x8E, CHR 0xAF] @ '' Competitive Advantage'') heading_style_pdf,
       Spacer 1 (0.2 * inch)]) @
      [PageBreak]\<close>

text \<open>Slide 16: Call to Action (from line 352).\<close>

definition slide_16_pdf :: "flowable list \<Rightarrow> flowable list" where
  \<open>slide_16_pdf elements =
     elements @
      [Spacer 1 (2 * inch),
       Paragraph ([CHR 0xF0, CHR 0x9F, CHR 0x8C, CHR 0x9F] @ '' Join the Revolution'') title_style_pdf,
       Spacer 1 (0.3 * inch),
       Paragraph ''Where Digital Souls Come Alive on the Blockchain'' subtitle_style_pdf,
       Spacer 1 (0.2 * inch),
       Paragraph (''Let'' @ [CHR 0x27] @ ''s build the future of AI on Hedera!'') subtitle_style_pdf]\<close>

definition create_pdf_pdf :: "flowable list" where
  "create_pdf_pdf =
     slide_16_pdf
      (slide_15_pdf
      (slide_14_pdf
      (slide_13_pdf
      (slide_12_pdf
      (slide_11_pdf
      (slide_10_pdf
      (slide_9_pdf
      (slide_8_pdf
      (slide_7_pdf
      (slide_6_pdf
      (slide_5_pdf
      (slide_4_pdf
      (slide_3_pdf
      (slide_2_pdf
      (slide_1_pdf
      ([]))))))))))))))))"

section \<open>Well-formed tables\<close>

text \<open>
  The scripts never compare a row with the column widths. \<open>row_lengths_match\<close> states the
  comparison they leave out: every row of the table has as many cells as the table has
  column widths.
\<close>

definition row_lengths_match :: "table \<Rightarrow> bool" where
  "row_lengths_match t = list_all (\<lambda>row. length row = length (colWidths t)) (data t)"

section \<open>The item loop never raises\<close>

lemma fill_paragraphs_Suc:
  "length (paragraphs tf) = Suc i \<Longrightarrow>
   fill_paragraphs fmt (Suc i) items tf =
     Inr (tf\<lparr>paragraphs := paragraphs tf @ map (\<lambda>item. fmt item new_paragraph) items\<rparr>)"
proof (induction items arbitrary: i tf)
  case Nil
  show ?case by simp
next
  case (Cons item items)
  let ?tf1 = "add_paragraph tf"
  let ?tf2 = "?tf1\<lparr>paragraphs := (paragraphs ?tf1)[Suc i := fmt item (paragraphs ?tf1 ! Suc i)]\<rparr>"
  have len1: "length (paragraphs ?tf1) = Suc (Suc i)"
    using Cons.prems by (simp add: add_paragraph_def)
  have upd: "(paragraphs tf @ [new_paragraph])
      [Suc i := fmt item ((paragraphs tf @ [new_paragraph]) ! Suc i)] =
      paragraphs tf @ [fmt item new_paragraph]"
    using Cons.prems by (simp add: nth_append list_update_append)
  have ps2: "paragraphs ?tf2 = paragraphs tf @ [fmt item new_paragraph]"
    by (simp add: add_paragraph_def upd)
  have len2: "length (paragraphs ?tf2) = Suc (Suc i)"
    using Cons.prems by (simp add: ps2)
  have "fill_paragraphs fmt (Suc i) (item # items) tf = fill_paragraphs fmt (Suc (Suc i)) items ?tf2"
    using len1 by (simp add: Let_def)
  also have "\<dots> = Inr (?tf2\<lparr>paragraphs := paragraphs ?tf2 @ map (\<lambda>item. fmt item new_paragraph) items\<rparr>)"
    by (rule Cons.IH [OF len2])
  also have "\<dots> = Inr (tf\<lparr>paragraphs := paragraphs tf @ map (\<lambda>item. fmt item new_paragraph) (item # items)\<rparr>)"
    by (simp add: add_paragraph_def upd)
  finally show ?case .
qed

lemma fill_paragraphs_new:
  "fill_paragraphs fmt 0 items (new_text_frame\<lparr>word_wrap := w\<rparr>) =
     Inr (new_text_frame\<lparr>word_wrap := w, paragraphs :=
       (if items = [] then [new_paragraph] else map (\<lambda>item. fmt item new_paragraph) items)\<rparr>)"
proof (cases items)
  case Nil
  then show ?thesis by (simp add: new_text_frame_def)
next
  case (Cons item rest)
  let ?tf = "new_text_frame\<lparr>word_wrap := w, paragraphs := [fmt item new_paragraph]\<rparr>"
  have "fill_paragraphs fmt 0 (item # rest) (new_text_frame\<lparr>word_wrap := w\<rparr>) =
          fill_paragraphs fmt (Suc 0) rest ?tf"
    by (simp add: new_text_frame_def)
  also have "\<dots> = Inr (?tf\<lparr>paragraphs := paragraphs ?tf @ map (\<lambda>item. fmt item new_paragraph) rest\<rparr>)"
    by (rule fill_paragraphs_Suc) simp
  finally show ?thesis using Cons by simp
qed

section \<open>What the slide helpers build\<close>

text \<open>
  Each helper succeeds on every input, and the slide it builds is given by its arguments
  alone: the geometry of every shape is a constant, and the paragraphs of a body frame are
  the items, one paragraph each.
\<close>

lemma add_title_slide_eq:
  "add_title_slide prs title subtitle =
     (let s = \<lparr>layout = 6, background = Some DARK, shapes =
        [\<lparr>auto_shape_type = None, shape_left = Inches 0.5, shape_top = Inches 2,
           shape_width = Inches 9, shape_height = Inches 1.5, fill_color = None,
           line_color = None,
           text_frame = \<lparr>word_wrap = Some True, margin_bottom = None, margin_left = None,
             paragraphs = [\<lparr>p_text = title, font_size = Some (Pt 54), font_bold = Some True,
               font_color = Some SECONDARY, space_before = None, space_after = None,
               level = 0\<rparr>]\<rparr>\<rparr>,
         \<lparr>auto_shape_type = None, shape_left = Inches 0.5, shape_top = Inches 3.8,
           shape_width = Inches 9, shape_height = Inches 1.5, fill_color = None,
           line_color = None,
           text_frame = \<lparr>word_wrap = Some True, margin_bottom = None, margin_left = None,
             paragraphs = [\<lparr>p_text = subtitle, font_size = Some (Pt 28), font_bold = None,
               font_color = Some LIGHT, space_before = None, space_after = None,
               level = 0\<rparr>]\<rparr>\<rparr>]\<rparr>
      in Inr (prs\<lparr>slides := slides prs @ [s]\<rparr>, s))"
  by (simp add: add_title_slide_def add_slide_def add_textbox_def new_text_frame_def
      new_paragraph_def Let_def)

lemma add_content_slide_eq:
  "add_content_slide prs title content_items =
     (let s = \<lparr>layout = 6, background = Some DARK, shapes =
        [\<lparr>auto_shape_type = Some 1, shape_left = Inches 0, shape_top = Inches 0,
           shape_width = Inches 10, shape_height = Inches 0.8, fill_color = Some PRIMARY,
           line_color = Some PRIMARY,
           text_frame = \<lparr>word_wrap = None, margin_bottom = Some (Inches 0.1),
             margin_left = Some (Inches 0.3),
             paragraphs = [\<lparr>p_text = title, font_size = Some (Pt 36), font_bold = Some True,
               font_color = Some LIGHT, space_before = None, space_after = None,
               level = 0\<rparr>]\<rparr>\<rparr>,
         \<lparr>auto_shape_type = None, shape_left = Inches 0.5, shape_top = Inches 1.2,
           shape_width = Inches 9, shape_height = Inches 6, fill_color = None,
           line_color = None,
           text_frame = \<lparr>word_wrap = Some True, margin_bottom = None, margin_left = None,
             paragraphs = (if content_items = [] then [new_paragraph]
               else map (\<lambda>item. content_item item new_paragraph) content_items)\<rparr>\<rparr>]\<rparr>
      in Inr (prs\<lparr>slides := slides prs @ [s]\<rparr>, s))"
proof -
  have tf: "text_frame (add_textbox (Inches 0.5) (Inches 1.2) (Inches 9) (Inches 6))
      \<lparr>word_wrap := Some True\<rparr> = new_text_frame\<lparr>word_wrap := Some True\<rparr>"
    by (simp add: add_textbox_def)
  show ?thesis
    unfolding add_content_slide_def Let_def tf fill_paragraphs_new
    by (simp add: add_slide_def add_shape_def add_textbox_def new_text_frame_def
        new_paragraph_def)
qed

lemma add_two_column_slide_eq:
  "add_two_column_slide prs title left_items right_items =
     (let s = \<lparr>layout = 6, background = Some DARK, shapes =
        [\<lparr>auto_shape_type = Some 1, shape_left = Inches 0, shape_top = Inches 0,
           shape_width = Inches 10, shape_height = Inches 0.8, fill_color = Some PRIMARY,
           line_color = Some PRIMARY,
           text_frame = \<lparr>word_wrap = None, margin_bottom = Some (Inches 0.1),
             margin_left = Some (Inches 0.3),
             paragraphs = [\<lparr>p_text = title, font_size = Some (Pt 36), font_bold = Some True,
               font_color = Some LIGHT, space_before = None, space_after = None,
               level = 0\<rparr>]\<rparr>\<rparr>,
         \<lparr>auto_shape_type = None, shape_left = Inches 0.3, shape_top = Inches 1.2,
           shape_width = Inches 4.5, shape_height = Inches 6, fill_color = None,
           line_color = None,
           text_frame = \<lparr>word_wrap = Some True, margin_bottom = None, margin_left = None,
             paragraphs = (if left_items = [] then [new_paragraph]
               else map (\<lambda>item. column_item item new_paragraph) left_items)\<rparr>\<rparr>,
         \<lparr>auto_shape_type = None, shape_left = Inches 5.2, shape_top = Inches 1.2,
           shape_width = Inches 4.5, shape_height = Inches 6, fill_color = None,
           line_color = None,
           text_frame = \<lparr>word_wrap = Some True, margin_bottom = None, margin_left = None,
             paragraphs = (if right_items = [] then [new_paragraph]
               else map (\<lambda>item. column_item item new_paragraph) right_items)\<rparr>\<rparr>]\<rparr>
      in Inr (prs\<lparr>slides := slides prs @ [s]\<rparr>, s))"
proof -
  have tfl: "text_frame (add_textbox (Inches 0.3) (Inches 1.2) (Inches 4.5) (Inches 6))
      \<lparr>word_wrap := Some True\<rparr> = new_text_frame\<lparr>word_wrap := Some True\<rparr>"
    by (simp add: add_textbox_def)
  have tfr: "text_frame (add_textbox (Inches 5.2) (Inches 1.2) (Inches 4.5) (Inches 6))
      \<lparr>word_wrap := Some True\<rparr> = new_text_frame\<lparr>word_wrap := Some True\<rparr>"
    by (simp add: add_textbox_def)
  show ?thesis
    unfolding add_two_column_slide_def Let_def tfl tfr fill_paragraphs_new
    by (simp add: add_slide_def add_shape_def add_textbox_def new_text_frame_def
        new_paragraph_def)
qed

lemma helper_texts:
  "\<exists>prs' s tb sb. add_title_slide prs title subtitle = Inr (prs', s) \<and>
      slides prs' = slides prs @ [s] \<and> shapes s = [tb, sb] \<and>
      map p_text (paragraphs (text_frame tb)) = [title] \<and>
      map p_text (paragraphs (text_frame sb)) = [subtitle]"
  "\<exists>prs' s tb cb. add_content_slide prs title content_items = Inr (prs', s) \<and>
      slides prs' = slides prs @ [s] \<and> shapes s = [tb, cb] \<and>
      map p_text (paragraphs (text_frame tb)) = [title] \<and>
      map p_text (paragraphs (text_frame cb)) =
        (if content_items = [] then [''''] else content_items)"
  "\<exists>prs' s tb lb rb. add_two_column_slide prs title left_items right_items = Inr (prs', s) \<and>
      slides prs' = slides prs @ [s] \<and> shapes s = [tb, lb, rb] \<and>
      map p_text (paragraphs (text_frame tb)) = [title] \<and>
      map p_text (paragraphs (text_frame lb)) =
        (if left_items = [] then [''''] else left_items) \<and>
      map p_text (paragraphs (text_frame rb)) =
        (if right_items = [] then [''''] else right_items)"
  by (simp_all add: add_title_slide_eq add_content_slide_eq add_two_column_slide_eq Let_def
      new_paragraph_def content_item_def column_item_def comp_def)



lemma Inches_0: "Inches 0 = 0"
  by (simp add: Inches_def)

subsection \<open>Calls in sequence\<close>

lemma run_call_eq:
  "\<exists>s. \<forall>prs. run_call prs c = Inr (prs\<lparr>slides := slides prs @ [s]\<rparr>, s)"
proof (cases c)
  case (Title_slide title subtitle)
  show ?thesis
    unfolding Title_slide run_call.simps add_title_slide_eq Let_def by blast
next
  case (Content_slide title content_items)
  show ?thesis
    unfolding Content_slide run_call.simps add_content_slide_eq Let_def by blast
next
  case (Two_column_slide title left_items right_items)
  show ?thesis
    unfolding Two_column_slide run_call.simps add_two_column_slide_eq Let_def by blast
qed

lemma run_call_case:
  "run_call prs c =
     (case c of
        Title_slide t st \<Rightarrow> add_title_slide prs t st
      | Content_slide t its \<Rightarrow> add_content_slide prs t its
      | Two_column_slide t ls rs \<Rightarrow> add_two_column_slide prs t ls rs)"
  by (cases c) simp_all

text \<open>
  The slides that a sequence of calls adds are, call by call and in the order of the
  calls, the slides that the helper named by the call builds from the call's arguments.
\<close>

lemma run_calls_eq:
  "\<exists>ss. run_calls prs calls = Inr (prs\<lparr>slides := slides prs @ ss\<rparr>) \<and>
     list_all2
       (\<lambda>c s. (case c of
                  Title_slide t st \<Rightarrow> add_title_slide Presentation t st
                | Content_slide t its \<Rightarrow> add_content_slide Presentation t its
                | Two_column_slide t ls rs \<Rightarrow> add_two_column_slide Presentation t ls rs) =
               Inr (Presentation\<lparr>slides := [s]\<rparr>, s))
       calls ss"
proof (induction calls arbitrary: prs)
  case Nil
  show ?case by simp
next
  case (Cons c cs)
  obtain s where s: "\<And>p. run_call p c = Inr (p\<lparr>slides := slides p @ [s]\<rparr>, s)"
    using run_call_eq [of c] by blast
  obtain ss where ss: "run_calls (prs\<lparr>slides := slides prs @ [s]\<rparr>) cs =
      Inr (prs\<lparr>slides := slides prs @ [s],
        slides := slides (prs\<lparr>slides := slides prs @ [s]\<rparr>) @ ss\<rparr>)"
    and rel: "list_all2
       (\<lambda>c s. (case c of
                  Title_slide t st \<Rightarrow> add_title_slide Presentation t st
                | Content_slide t its \<Rightarrow> add_content_slide Presentation t its
                | Two_column_slide t ls rs \<Rightarrow> add_two_column_slide Presentation t ls rs) =
               Inr (Presentation\<lparr>slides := [s]\<rparr>, s))
       cs ss"
    using Cons.IH [of "prs\<lparr>slides := slides prs @ [s]\<rparr>"] by auto
  have "run_call Presentation c = Inr (Presentation\<lparr>slides := [s]\<rparr>, s)"
    using s [of Presentation] by (simp add: Presentation_def)
  then have first: "(case c of
        Title_slide t st \<Rightarrow> add_title_slide Presentation t st
      | Content_slide t its \<Rightarrow> add_content_slide Presentation t its
      | Two_column_slide t ls rs \<Rightarrow> add_two_column_slide Presentation t ls rs) =
      Inr (Presentation\<lparr>slides := [s]\<rparr>, s)"
    by (simp only: run_call_case)
  have "run_calls prs (c # cs) = Inr (prs\<lparr>slides := slides prs @ s # ss\<rparr>)"
    using ss by (simp add: s)
  moreover have "list_all2
       (\<lambda>c s. (case c of
                  Title_slide t st \<Rightarrow> add_title_slide Presentation t st
                | Content_slide t its \<Rightarrow> add_content_slide Presentation t its
                | Two_column_slide t ls rs \<Rightarrow> add_two_column_slide Presentation t ls rs) =
               Inr (Presentation\<lparr>slides := [s]\<rparr>, s))
       (c # cs) (s # ss)"
    using first rel by simp
  ultimately show ?case by blast
qed

lemma length_deck_calls: "length deck_calls = 17"
  by (simp add: deck_calls_def)

lemma create_pitch_deck_eq:
  "\<exists>ss. create_pitch_deck =
       Inr \<lparr>slide_width = Inches 10, slide_height = Inches 7.5, slides = ss\<rparr> \<and>
     list_all2
       (\<lambda>c s. (case c of
                  Title_slide t st \<Rightarrow> add_title_slide Presentation t st
                | Content_slide t its \<Rightarrow> add_content_slide Presentation t its
                | Two_column_slide t ls rs \<Rightarrow> add_two_column_slide Presentation t ls rs) =
               Inr (Presentation\<lparr>slides := [s]\<rparr>, s))
       deck_calls ss"
  using run_calls_eq
    [of "Presentation\<lparr>slide_width := Inches 10, slide_height := Inches 7.5\<rparr>" deck_calls]
  by (simp add: create_pitch_deck_def Presentation_def)

section \<open>What the PDF scripts append\<close>

lemma append_paragraphs_eq:
  "append_paragraphs style items elements = elements @ map (\<lambda>item. Paragraph item style) items"
  by (induction items arbitrary: elements) simp_all

lemma append_spaced_eq:
  "append_spaced gap style items elements =
     elements @ map (\<lambda>item. if item = '''' then Spacer 1 gap else Paragraph item style) items"
  by (induction items arbitrary: elements) simp_all

text \<open>Every slide of either script only extends the list it is given.\<close>

lemma slides_final_append:
  "slide_1_final now elements = elements @ slide_1_final now []"
  "slide_2_final elements = elements @ slide_2_final []"
  "slide_3_final elements = elements @ slide_3_final []"
  "slide_4_final elements = elements @ slide_4_final []"
  "slide_5_final elements = elements @ slide_5_final []"
  "slide_6_final elements = elements @ slide_6_final []"
  "slide_7_final elements = elements @ slide_7_final []"
  "slide_8_final elements = elements @ slide_8_final []"
  "slide_9_final elements = elements @ slide_9_final []"
  "slide_10_final elements = elements @ slide_10_final []"
  "slide_11_final elements = elements @ slide_11_final []"
  "slide_12_final elements = elements @ slide_12_final []"
  "slide_13_final elements = elements @ slide_13_final []"
  by (simp_all add: slide_1_final_def slide_2_final_def slide_3_final_def slide_4_final_def
      slide_5_final_def slide_6_final_def slide_7_final_def slide_8_final_def
      slide_9_final_def slide_10_final_def slide_11_final_def slide_12_final_def
      slide_13_final_def
      append_paragraphs_eq append_spaced_eq)

lemma slides_pdf_append:
  "slide_1_pdf elements = elements @ slide_1_pdf []"
  "slide_2_pdf elements = elements @ slide_2_pdf []"
  "slide_3_pdf elements = elements @ slide_3_pdf []"
  "slide_4_pdf elements = elements @ slide_4_pdf []"
  "slide_5_pdf elements = elements @ slide_5_pdf []"
  "slide_6_pdf elements = elements @ slide_6_pdf []"
  "slide_7_pdf elements = elements @ slide_7_pdf []"
  "slide_8_pdf elements = elements @ slide_8_pdf []"
  "slide_9_pdf elements = elements @ slide_9_pdf []"
  "slide_10_pdf elements = elements @ slide_10_pdf []"
  "slide_11_pdf elements = elements @ slide_11_pdf []"
  "slide_12_pdf elements = elements @ slide_12_pdf []"
  "slide_13_pdf elements = elements @ slide_13_pdf []"
  "slide_14_pdf elements = elements @ slide_14_pdf []"
  "slide_15_pdf elements = elements @ slide_15_pdf []"
  "slide_16_pdf elements = elements @ slide_16_pdf []"
  by (simp_all add: slide_1_pdf_def slide_2_pdf_def slide_3_pdf_def slide_4_pdf_def slide_5_pdf_def
      slide_6_pdf_def slide_7_pdf_def slide_8_pdf_def slide_9_pdf_def slide_10_pdf_def
      slide_11_pdf_def slide_12_pdf_def slide_13_pdf_def slide_14_pdf_def
      slide_15_pdf_def slide_16_pdf_def
      append_paragraphs_eq append_spaced_eq)

lemma create_pdf_final_parts:
  "create_pdf_final now =
     slide_1_final now [] @ slide_2_final [] @ slide_3_final [] @ slide_4_final [] @
     slide_5_final [] @ slide_6_final [] @ slide_7_final [] @ slide_8_final [] @
     slide_9_final [] @ slide_10_final [] @ slide_11_final [] @ slide_12_final [] @
     slide_13_final []"
  unfolding create_pdf_final_def
  by (subst slides_final_append(13), subst slides_final_append(12),
      subst slides_final_append(11), subst slides_final_append(10),
      subst slides_final_append(9), subst slides_final_append(8),
      subst slides_final_append(7), subst slides_final_append(6),
      subst slides_final_append(5), subst slides_final_append(4),
      subst slides_final_append(3), subst slides_final_append(2),
      simp)

lemma create_pdf_pdf_parts:
  "create_pdf_pdf =
     slide_1_pdf [] @ slide_2_pdf [] @ slide_3_pdf [] @ slide_4_pdf [] @
     slide_5_pdf [] @ slide_6_pdf [] @ slide_7_pdf [] @ slide_8_pdf [] @
     slide_9_pdf [] @ slide_10_pdf [] @ slide_11_pdf [] @ slide_12_pdf [] @
     slide_13_pdf [] @ slide_14_pdf [] @ slide_15_pdf [] @ slide_16_pdf []"
  unfolding create_pdf_pdf_def
  by (subst slides_pdf_append(16), subst slides_pdf_append(15),
      subst slides_pdf_append(14), subst slides_pdf_append(13),
      subst slides_pdf_append(12), subst slides_pdf_append(11),
      subst slides_pdf_append(10), subst slides_pdf_append(9),
      subst slides_pdf_append(8), subst slides_pdf_append(7),
      subst slides_pdf_append(6), subst slides_pdf_append(5),
      subst slides_pdf_append(4), subst slides_pdf_append(3), subst slides_pdf_append(2),
      simp)


text \<open>
  What each slide appends, with every loop written as the elements it produces from its
  list.
\<close>

lemma slides_final_eq:
  "slide_1_final now elements =
        elements @
          [Spacer 1 (1.5 * inch),
           Paragraph ([CHR 0xF0, CHR 0x9F, CHR 0x8C, CHR 0x9F] @ '' DreamMarket'') title_style_final,
           Spacer 1 (0.3 * inch),
           Paragraph ''The Marketplace of Digital Souls'' subtitle_style_final,
           Paragraph ''AI Agents on Hedera Blockchain'' subtitle_style_final,
           Spacer 1 (0.8 * inch),
           Paragraph ''Hedera Hello Future: Ascension Hackathon 2025'' body_style_final,
           Paragraph ''AI & Agents Track'' body_style_final,
           Spacer 1 (0.3 * inch),
           Paragraph (''Submitted: '' @ strftime_B_d_Y now) body_style_final,
           PageBreak]"
  "slide_2_final elements =
        elements @
          [Paragraph ([CHR 0xF0, CHR 0x9F, CHR 0x91, CHR 0xA5] @ '' Team & Project Introduction'') heading_style_final,
           Spacer 1 (0.2 * inch)] @
          map (\<lambda>item. if item = '''' then Spacer 1 (0.1 * inch) else Paragraph item bullet_style_final)
            team_intro_final @
          [PageBreak]"
  "slide_3_final elements =
        elements @
          [Paragraph ([CHR 0xF0, CHR 0x9F, CHR 0x93, CHR 0x8B] @ '' Project Summary'') heading_style_final,
           Spacer 1 (0.2 * inch),
           Paragraph ''What is DreamMarket?'' heading2_style_final,
           Spacer 1 (0.1 * inch)] @
          map (\<lambda>item. Paragraph item bullet_style_final) summary_items_final @
          [PageBreak]"
  "slide_4_final elements =
        elements @
          [Paragraph ([CHR 0xE2, CHR 0xAD, CHR 0x90] @ '' Judging Criteria: Innovation & Feasibility'') heading_style_final,
           Spacer 1 (0.15 * inch),
           Table_flowable criteria_table_final,
           PageBreak]"
  "slide_5_final elements =
        elements @
          [Paragraph ([CHR 0xE2, CHR 0xAD, CHR 0x90] @ '' Judging Criteria: Execution & Integration'') heading_style_final,
           Spacer 1 (0.15 * inch),
           Table_flowable criteria_table2_final,
           PageBreak]"
  "slide_6_final elements =
        elements @
          [Paragraph ([CHR 0xE2, CHR 0xAD, CHR 0x90] @ '' Judging Criteria: Success, Validation & Pitch'') heading_style_final,
           Spacer 1 (0.15 * inch),
           Table_flowable criteria_table3_final,
           PageBreak]"
  "slide_7_final elements =
        elements @
          [Paragraph ([CHR 0xE2, CHR 0x9C, CHR 0xA8] @ '' Key Features'') heading_style_final,
           Spacer 1 (0.15 * inch)] @
          map (\<lambda>item. Paragraph item bullet_style_final) features_final @
          [Spacer 1 (0.2 * inch),
           Paragraph ([CHR 0xF0, CHR 0x9F, CHR 0x8F, CHR 0x97, CHR 0xEF, CHR 0xB8, CHR 0x8F] @ '' Technical Stack'') heading2_style_final,
           Spacer 1 (0.1 * inch)] @
          map (\<lambda>item. Paragraph item bullet_style_final) tech_stack_final @
          [PageBreak]"
  "slide_8_final elements =
        elements @
          [Paragraph ([CHR 0xF0, CHR 0x9F, CHR 0x94, CHR 0x97] @ '' Deep Hedera Integration'') heading_style_final,
           Spacer 1 (0.15 * inch)] @
          map (\<lambda>item. if item = '''' then Spacer 1 (0.05 * inch) else Paragraph item bullet_style_final)
            hedera_items_final @
          [PageBreak]"
  "slide_9_final elements =
        elements @
          [Paragraph ([CHR 0xF0, CHR 0x9F, CHR 0x92, CHR 0xB0] @ '' Business Model & Market Opportunity'') heading_style_final,
           Spacer 1 (0.15 * inch),
           Paragraph ''Revenue Streams:'' heading2_style_final,
           Spacer 1 (0.1 * inch)] @
          map (\<lambda>item. Paragraph item bullet_style_final) revenue_items_final @
          [Spacer 1 (0.15 * inch),
           Paragraph ''Market Opportunity:'' heading2_style_final,
           Spacer 1 (0.1 * inch)] @
          map (\<lambda>item. Paragraph item bullet_style_final) market_items_final @
          [PageBreak]"
  "slide_10_final elements =
        elements @
          [Paragraph ([CHR 0xF0, CHR 0x9F, CHR 0x9A, CHR 0x80] @ '' Future Roadmap & Key Learnings'') heading_style_final,
           Spacer 1 (0.15 * inch),
           Paragraph ''Phase 1: MVP (Current - Completed)'' heading2_style_final,
           Spacer 1 (0.1 * inch)] @
          map (\<lambda>item. Paragraph item bullet_style_final) phase1_items_final @
          [Spacer 1 (0.15 * inch),
           Paragraph ''Phase 2: Marketplace (Q1 2026)'' heading2_style_final,
           Spacer 1 (0.1 * inch)] @
          map (\<lambda>item. Paragraph item bullet_style_final) phase2_items_final @
          [Spacer 1 (0.15 * inch),
           Paragraph ''Phase 3: AI Integration (Q2 2026)'' heading2_style_final,
           Spacer 1 (0.1 * inch)] @
          map (\<lambda>item. Paragraph item bullet_style_final) phase3_items_final @
          [PageBreak]"
  "slide_11_final elements =
        elements @
          [Paragraph ([CHR 0xF0, CHR 0x9F, CHR 0x9A, CHR 0x80] @ '' Roadmap (Continued) & Key Learnings'') heading_style_final,
           Spacer 1 (0.15 * inch),
           Paragraph ''Phase 4: Advanced Features (Q3 2026)'' heading2_style_final,
           Spacer 1 (0.1 * inch)] @
          map (\<lambda>item. Paragraph item bullet_style_final) phase4_items_final @
          [Spacer 1 (0.15 * inch),
           Paragraph ''Key Learnings & Room for Improvement:'' heading2_style_final,
           Spacer 1 (0.1 * inch)] @
          map (\<lambda>item. if item = '''' then Spacer 1 (0.05 * inch) else Paragraph item bullet_style_final)
            learnings_final @
          [PageBreak]"
  "slide_12_final elements =
        elements @
          [Paragraph ([CHR 0xF0, CHR 0x9F, CHR 0x8E, CHR 0xAC] @ '' Demo Video'') heading_style_final,
           Spacer 1 (0.3 * inch)] @
          map (\<lambda>item. if item = '''' then Spacer 1 (0.05 * inch) else Paragraph item bullet_style_final)
            demo_content_final @
          [Spacer 1 (0.3 * inch),
           Paragraph ([CHR 0xF0, CHR 0x9F, CHR 0x93, CHR 0xBA] @ '' Demo Video Link:'') heading2_style_final,
           Spacer 1 (0.1 * inch),
           Paragraph (''<b>YouTube:</b> '' @ demo_link_final) body_style_final,
           Paragraph ''(Replace YOUR_VIDEO_ID with actual video ID after uploading)'' bullet_style_final,
           PageBreak]"
  "slide_13_final elements =
        elements @
          [Paragraph ([CHR 0xF0, CHR 0x9F, CHR 0x8E, CHR 0xAF] @ '' Competitive Advantage'') heading_style_final,
           Spacer 1 (0.15 * inch)] @
          map (\<lambda>item. Paragraph item bullet_style_final) advantages_final @
          [Spacer 1 (0.3 * inch),
           Paragraph ([CHR 0xF0, CHR 0x9F, CHR 0x8C, CHR 0x9F] @ '' Call to Action'') heading_style_final,
           Spacer 1 (0.15 * inch)] @
          map (\<lambda>item. if item = '''' then Spacer 1 (0.05 * inch) else Paragraph item bullet_style_final)
            cta_items_final"
  by (simp_all add: slide_1_final_def slide_2_final_def slide_3_final_def slide_4_final_def
      slide_5_final_def slide_6_final_def slide_7_final_def slide_8_final_def
      slide_9_final_def slide_10_final_def slide_11_final_def slide_12_final_def
      slide_13_final_def
      append_paragraphs_eq append_spaced_eq)

lemma slides_pdf_eq:
  "slide_1_pdf elements =
        elements @
          [Spacer 1 (1.5 * inch),
           Paragraph ([CHR 0xF0, CHR 0x9F, CHR 0x8C, CHR 0x9F] @ '' DreamMarket'') title_style_pdf,
           Spacer 1 (0.3 * inch),
           Paragraph ''The Marketplace of Digital Souls'' subtitle_style_pdf,
           Paragraph ''AI Agents on Hedera Blockchain'' subtitle_style_pdf,
           Spacer 1 (0.5 * inch),
           Paragraph ''Hedera Hello Future: Ascension Hackathon 2025'' body_style_pdf,
           PageBreak]"
  "slide_2_pdf elements =
        elements @
          [Paragraph ([CHR 0xF0, CHR 0x9F, CHR 0x8E, CHR 0xAF] @ '' The Problem'') heading_style_pdf,
           Spacer 1 (0.2 * inch)] @
          map (\<lambda>item. Paragraph item bullet_style_pdf) problems_pdf @
          [PageBreak]"
  "slide_3_pdf elements =
        elements @
          [Paragraph ([CHR 0xF0, CHR 0x9F, CHR 0x92, CHR 0xA1] @ '' Our Solution'') heading_style_pdf,
           Spacer 1 (0.2 * inch)] @
          map (\<lambda>item. Paragraph item bullet_style_pdf) solutions_pdf @
          [PageBreak]"
  "slide_4_pdf elements =
        elements @
          [Paragraph ([CHR 0xE2, CHR 0xAD, CHR 0x90] @ '' 1. INNOVATION'') heading_style_pdf,
           Spacer 1 (0.2 * inch)] @
          map (\<lambda>item. Paragraph item bullet_style_pdf) innovations_pdf @
          [PageBreak]"
  "slide_5_pdf elements =
        elements @
          [Paragraph ([CHR 0xE2, CHR 0x9C, CHR 0x85] @ '' 2. FEASIBILITY'') heading_style_pdf,
           Spacer 1 (0.2 * inch)] @
          map (\<lambda>item. Paragraph item bullet_style_pdf) feasibilities_pdf @
          [PageBreak]"
  "slide_6_pdf elements =
        elements @
          [Paragraph ([CHR 0xF0, CHR 0x9F, CHR 0x8E, CHR 0xA8] @ '' 3. EXECUTION'') heading_style_pdf,
           Spacer 1 (0.2 * inch)] @
          map (\<lambda>item. Paragraph item bullet_style_pdf) executions_pdf @
          [PageBreak]"
  "slide_7_pdf elements =
        elements @
          [Paragraph ([CHR 0xF0, CHR 0x9F, CHR 0x94, CHR 0x97] @ '' 4. INTEGRATION - Deep Hedera Usage'') heading_style_pdf,
           Spacer 1 (0.2 * inch),
           Table_flowable integration_table_pdf,
           PageBreak]"
  "slide_8_pdf elements =
        elements @
          [Paragraph ([CHR 0xF0, CHR 0x9F, CHR 0x8F, CHR 0x86] @ '' 5. SUCCESS POTENTIAL'') heading_style_pdf,
           Spacer 1 (0.2 * inch)] @
          map (\<lambda>item. Paragraph item bullet_style_pdf) success_items_pdf @
          [PageBreak]"
  "slide_9_pdf elements =
        elements @
          [Paragraph ([CHR 0xE2, CHR 0x9C, CHR 0x94, CHR 0xEF, CHR 0xB8, CHR 0x8F] @ '' 6. VALIDATION'') heading_style_pdf,
           Spacer 1 (0.2 * inch)] @
          map (\<lambda>item. Paragraph item bullet_style_pdf) validation_items_pdf @
          [PageBreak]"
  "slide_10_pdf elements =
        elements @
          [Paragraph ([CHR 0xF0, CHR 0x9F, CHR 0x8E, CHR 0xA4] @ '' 7. PITCH - Clear Problem/Solution'') heading_style_pdf,
           Spacer 1 (0.2 * inch),
           Table_flowable pitch_table_pdf,
           PageBreak]"
  "slide_11_pdf elements =
        elements @
          [Paragraph ([CHR 0xF0, CHR 0x9F, CHR 0x8F, CHR 0x97, CHR 0xEF, CHR 0xB8, CHR 0x8F] @ '' Technical Architecture'') heading_style_pdf,
           Spacer 1 (0.2 * inch)] @
          map (\<lambda>item. Paragraph item bullet_style_pdf) tech_items_pdf @
          [PageBreak]"
  "slide_12_pdf elements =
        elements @
          [Paragraph ([CHR 0xE2, CHR 0x9C, CHR 0xA8] @ '' Key Features'') heading_style_pdf,
           Spacer 1 (0.2 * inch)] @
          map (\<lambda>item. Paragraph item bullet_style_pdf) features_pdf @
          [PageBreak]"
  "slide_13_pdf elements =
        elements @
          [Paragraph ([CHR 0xF0, CHR 0x9F, CHR 0x9A, CHR 0x80] @ '' Roadmap'') heading_style_pdf,
           Spacer 1 (0.2 * inch),
           Table_flowable roadmap_table_pdf,
           PageBreak]"
  "slide_14_pdf elements =
        elements @
          [Paragraph ([CHR 0xF0, CHR 0x9F, CHR 0x92, CHR 0xB0] @ '' Business Model'') heading_style_pdf,
           Spacer 1 (0.2 * inch)] @
          map (\<lambda>item. Paragraph item bullet_style_pdf) business_items_pdf @
          [PageBreak]"
  "slide_15_pdf elements =
        elements @
          [Paragraph ([CHR 0xF0, CHR 0x9F, CHR 0x8E, CHR 0xAF] @ '' Competitive Advantage'') heading_style_pdf,
           Spacer 1 (0.2 * inch)] @
          map (\<lambda>item. Paragraph item bullet_style_pdf) advantages_pdf @
          [PageBreak]"
  "slide_16_pdf elements =
        elements @
          [Spacer 1 (2 * inch),
           Paragraph ([CHR 0xF0, CHR 0x9F, CHR 0x8C, CHR 0x9F] @ '' Join the Revolution'') title_style_pdf,
           Spacer 1 (0.3 * inch),
           Paragraph ''Where Digital Souls Come Alive on the Blockchain'' subtitle_style_pdf,
           Spacer 1 (0.2 * inch),
           Paragraph (''Let'' @ [CHR 0x27] @ ''s build the future of AI on Hedera!'') subtitle_style_pdf]"
  by (simp_all add: slide_1_pdf_def slide_2_pdf_def slide_3_pdf_def slide_4_pdf_def slide_5_pdf_def
      slide_6_pdf_def slide_7_pdf_def slide_8_pdf_def slide_9_pdf_def slide_10_pdf_def
      slide_11_pdf_def slide_12_pdf_def slide_13_pdf_def slide_14_pdf_def
      slide_15_pdf_def slide_16_pdf_def
      append_paragraphs_eq append_spaced_eq)





section \<open>The claims\<close>

subsection \<open>C1: determinism of the generators\<close>



subsection \<open>C3: empty items of a bullet list\<close>



subsection \<open>C4: a table row of the wrong length\<close>

text \<open>
  Claim C4 says that a table with a row whose cell count differs from the declared
  column count makes generation fail with a structural-validation error naming the row.
  The scripts have no such check and no such error: a table with two column widths and a
  three-cell row is built like any other, keeps the row, and is appended to the elements.
\<close>

theorem three_cell_row_in_two_column_table_is_kept:
  "\<not> row_lengths_match (setStyle (Table [[''A'', ''B''], [''a'', ''b'', ''c'']]
       [2.3 * inch, 2.3 * inch]) []) \<and>
   [Table_flowable (setStyle (Table [[''A'', ''B''], [''a'', ''b'', ''c'']]
       [2.3 * inch, 2.3 * inch]) []), PageBreak] =
   [Table_flowable \<lparr>data = [[''A'', ''B''], [''a'', ''b'', ''c'']],
       colWidths = [2.3 * inch, 2.3 * inch], table_style = []\<rparr>, PageBreak]"
  by (simp add: row_lengths_match_def setStyle_def Table_def)

text \<open>
  Claim C4 as amended: the scripts build a table from its rows, its column widths and its
  style commands as they are written, with no check of the rows and no error; and in each
  of the six tables they build, every row has exactly as many cells as the table has
  column widths.
\<close>

theorem tables_of_the_scripts_are_well_formed:
  "setStyle (Table d ws) cmds = \<lparr>data = d, colWidths = ws, table_style = cmds\<rparr> \<and>
   row_lengths_match criteria_table_final \<and> row_lengths_match criteria_table2_final \<and>
   row_lengths_match criteria_table3_final \<and> row_lengths_match integration_table_pdf \<and>
   row_lengths_match pitch_table_pdf \<and> row_lengths_match roadmap_table_pdf"
  by (simp add: row_lengths_match_def setStyle_def Table_def
      criteria_table_final_def criteria_table2_final_def criteria_table3_final_def
      integration_table_pdf_def pitch_table_pdf_def roadmap_table_pdf_def
      criteria_data_final_def criteria_data2_final_def criteria_data3_final_def
      integration_data_pdf_def pitch_data_pdf_def roadmap_data_pdf_def)

subsection \<open>C5: rendering order is authoring order\<close>

text \<open>
  Claim C5: in each backend the rendered elements are in authoring order. In the flow
  backend both bullet loops append one element per item, in the order of the items,
  after everything appended before. Every slide of either PDF script appends, after the
  elements it is given, exactly the elements its source lines append, in the order of
  those lines, each bullet list in the order of its items; and the element list of each
  script is its slides in source order. In the slide backend the shapes of a slide are
  in the order they were added (title first, then the body boxes), the paragraphs of a
  body frame carry the items in their order, a helper appends its slide after the slides
  already present, and a sequence of calls (that of \<^verbatim>\<open>create_pitch_deck\<close> among them)
  appends, in the order of the calls, the slide that each call's helper builds from the
  call's arguments.
\<close>

theorem rendering_order_is_authoring_order:
  "append_paragraphs style items elements =
     elements @ map (\<lambda>item. Paragraph item style) items \<and>
   append_spaced gap style items elements =
     elements @ map (\<lambda>item. if item = '''' then Spacer 1 gap else Paragraph item style) items \<and>
   slide_1_final now elements =
        elements @
          [Spacer 1 (1.5 * inch),
           Paragraph ([CHR 0xF0, CHR 0x9F, CHR 0x8C, CHR 0x9F] @ '' DreamMarket'') title_style_final,
           Spacer 1 (0.3 * inch),
           Paragraph ''The Marketplace of Digital Souls'' subtitle_style_final,
           Paragraph ''AI Agents on Hedera Blockchain'' subtitle_style_final,
           Spacer 1 (0.8 * inch),
           Paragraph ''Hedera Hello Future: Ascension Hackathon 2025'' body_style_final,
           Paragraph ''AI & Agents Track'' body_style_final,
           Spacer 1 (0.3 * inch),
           Paragraph (''Submitted: '' @ strftime_B_d_Y now) body_style_final,
           PageBreak] \<and>
   slide_2_final elements =
        elements @
          [Paragraph ([CHR 0xF0, CHR 0x9F, CHR 0x91, CHR 0xA5] @ '' Team & Project Introduction'') heading_style_final,
           Spacer 1 (0.2 * inch)] @
          map (\<lambda>item. if item = '''' then Spacer 1 (0.1 * inch) else Paragraph item bullet_style_final)
            team_intro_final @
          [PageBreak] \<and>
   slide_3_final elements =
        elements @
          [Paragraph ([CHR 0xF0, CHR 0x9F, CHR 0x93, CHR 0x8B] @ '' Project Summary'') heading_style_final,
           Spacer 1 (0.2 * inch),
           Paragraph ''What is DreamMarket?'' heading2_style_final,
           Spacer 1 (0.1 * inch)] @
          map (\<lambda>item. Paragraph item bullet_style_final) summary_items_final @
          [PageBreak] \<and>
   slide_4_final elements =
        elements @
          [Paragraph ([CHR 0xE2, CHR 0xAD, CHR 0x90] @ '' Judging Criteria: Innovation & Feasibility'') heading_style_final,
           Spacer 1 (0.15 * inch),
           Table_flowable criteria_table_final,
           PageBreak] \<and>
   slide_5_final elements =
        elements @
          [Paragraph ([CHR 0xE2, CHR 0xAD, CHR 0x90] @ '' Judging Criteria: Execution & Integration'') heading_style_final,
           Spacer 1 (0.15 * inch),
           Table_flowable criteria_table2_final,
           PageBreak] \<and>
   slide_6_final elements =
        elements @
          [Paragraph ([CHR 0xE2, CHR 0xAD, CHR 0x90] @ '' Judging Criteria: Success, Validation & Pitch'') heading_style_final,
           Spacer 1 (0.15 * inch),
           Table_flowable criteria_table3_final,
           PageBreak] \<and>
   slide_7_final elements =
        elements @
          [Paragraph ([CHR 0xE2, CHR 0x9C, CHR 0xA8] @ '' Key Features'') heading_style_final,
           Spacer 1 (0.15 * inch)] @
          map (\<lambda>item. Paragraph item bullet_style_final) features_final @
          [Spacer 1 (0.2 * inch),
           Paragraph ([CHR 0xF0, CHR 0x9F, CHR 0x8F, CHR 0x97, CHR 0xEF, CHR 0xB8, CHR 0x8F] @ '' Technical Stack'') heading2_style_final,
           Spacer 1 (0.1 * inch)] @
          map (\<lambda>item. Paragraph item bullet_style_final) tech_stack_final @
          [PageBreak] \<and>
   slide_8_final elements =
        elements @
          [Paragraph ([CHR 0xF0, CHR 0x9F, CHR 0x94, CHR 0x97] @ '' Deep Hedera Integration'') heading_style_final,
           Spacer 1 (0.15 * inch)] @
          map (\<lambda>item. if item = '''' then Spacer 1 (0.05 * inch) else Paragraph item bullet_style_final)
            hedera_items_final @
          [PageBreak] \<and>
   slide_9_final elements =
        elements @
          [Paragraph ([CHR 0xF0, CHR 0x9F, CHR 0x92, CHR 0xB0] @ '' Business Model & Market Opportunity'') heading_style_final,
           Spacer 1 (0.15 * inch),
           Paragraph ''Revenue Streams:'' heading2_style_final,
           Spacer 1 (0.1 * inch)] @
          map (\<lambda>item. Paragraph item bullet_style_final) revenue_items_final @
          [Spacer 1 (0.15 * inch),
           Paragraph ''Market Opportunity:'' heading2_style_final,
           Spacer 1 (0.1 * inch)] @
          map (\<lambda>item. Paragraph item bullet_style_final) market_items_final @
          [PageBreak] \<and>
   slide_10_final elements =
        elements @
          [Paragraph ([CHR 0xF0, CHR 0x9F, CHR 0x9A, CHR 0x80] @ '' Future Roadmap & Key Learnings'') heading_style_final,
           Spacer 1 (0.15 * inch),
           Paragraph ''Phase 1: MVP (Current - Completed)'' heading2_style_final,
           Spacer 1 (0.1 * inch)] @
          map (\<lambda>item. Paragraph item bullet_style_final) phase1_items_final @
          [Spacer 1 (0.15 * inch),
           Paragraph ''Phase 2: Marketplace (Q1 2026)'' heading2_style_final,
           Spacer 1 (0.1 * inch)] @
          map (\<lambda>item. Paragraph item bullet_style_final) phase2_items_final @
          [Spacer 1 (0.15 * inch),
           Paragraph ''Phase 3: AI Integration (Q2 2026)'' heading2_style_final,
           Spacer 1 (0.1 * inch)] @
          map (\<lambda>item. Paragraph item bullet_style_final) phase3_items_final @
          [PageBreak] \<and>
   slide_11_final elements =
        elements @
          [Paragraph ([CHR 0xF0, CHR 0x9F, CHR 0x9A, CHR 0x80] @ '' Roadmap (Continued) & Key Learnings'') heading_style_final,
           Spacer 1 (0.15 * inch),
           Paragraph ''Phase 4: Advanced Features (Q3 2026)'' heading2_style_final,
           Spacer 1 (0.1 * inch)] @
          map (\<lambda>item. Paragraph item bullet_style_final) phase4_items_final @
          [Spacer 1 (0.15 * inch),
           Paragraph ''Key Learnings & Room for Improvement:'' heading2_style_final,
           Spacer 1 (0.1 * inch)] @
          map (\<lambda>item. if item = '''' then Spacer 1 (0.05 * inch) else Paragraph item bullet_style_final)
            learnings_final @
          [PageBreak] \<and>
   slide_12_final elements =
        elements @
          [Paragraph ([CHR 0xF0, CHR 0x9F, CHR 0x8E, CHR 0xAC] @ '' Demo Video'') heading_style_final,
           Spacer 1 (0.3 * inch)] @
          map (\<lambda>item. if item = '''' then Spacer 1 (0.05 * inch) else Paragraph item bullet_style_final)
            demo_content_final @
          [Spacer 1 (0.3 * inch),
           Paragraph ([CHR 0xF0, CHR 0x9F, CHR 0x93, CHR 0xBA] @ '' Demo Video Link:'') heading2_style_final,
           Spacer 1 (0.1 * inch),
           Paragraph (''<b>YouTube:</b> '' @ demo_link_final) body_style_final,
           Paragraph ''(Replace YOUR_VIDEO_ID with actual video ID after uploading)'' bullet_style_final,
           PageBreak] \<and>
   slide_13_final elements =
        elements @
          [Paragraph ([CHR 0xF0, CHR 0x9F, CHR 0x8E, CHR 0xAF] @ '' Competitive Advantage'') heading_style_final,
           Spacer 1 (0.15 * inch)] @
          map (\<lambda>item. Paragraph item bullet_style_final) advantages_final @
          [Spacer 1 (0.3 * inch),
           Paragraph ([CHR 0xF0, CHR 0x9F, CHR 0x8C, CHR 0x9F] @ '' Call to Action'') heading_style_final,
           Spacer 1 (0.15 * inch)] @
          map (\<lambda>item. if item = '''' then Spacer 1 (0.05 * inch) else Paragraph item bullet_style_final)
            cta_items_final \<and>
   slide_1_pdf elements =
        elements @
          [Spacer 1 (1.5 * inch),
           Paragraph ([CHR 0xF0, CHR 0x9F, CHR 0x8C, CHR 0x9F] @ '' DreamMarket'') title_style_pdf,
           Spacer 1 (0.3 * inch),
           Paragraph ''The Marketplace of Digital Souls'' subtitle_style_pdf,
           Paragraph ''AI Agents on Hedera Blockchain'' subtitle_style_pdf,
           Spacer 1 (0.5 * inch),
           Paragraph ''Hedera Hello Future: Ascension Hackathon 2025'' body_style_pdf,
           PageBreak] \<and>
   slide_2_pdf elements =
        elements @
          [Paragraph ([CHR 0xF0, CHR 0x9F, CHR 0x8E, CHR 0xAF] @ '' The Problem'') heading_style_pdf,
           Spacer 1 (0.2 * inch)] @
          map (\<lambda>item. Paragraph item bullet_style_pdf) problems_pdf @
          [PageBreak] \<and>
   slide_3_pdf elements =
        elements @
          [Paragraph ([CHR 0xF0, CHR 0x9F, CHR 0x92, CHR 0xA1] @ '' Our Solution'') heading_style_pdf,
           Spacer 1 (0.2 * inch)] @
          map (\<lambda>item. Paragraph item bullet_style_pdf) solutions_pdf @
          [PageBreak] \<and>
   slide_4_pdf elements =
        elements @
          [Paragraph ([CHR 0xE2, CHR 0xAD, CHR 0x90] @ '' 1. INNOVATION'') heading_style_pdf,
           Spacer 1 (0.2 * inch)] @
          map (\<lambda>item. Paragraph item bullet_style_pdf) innovations_pdf @
          [PageBreak] \<and>
   slide_5_pdf elements =
        elements @
          [Paragraph ([CHR 0xE2, CHR 0x9C, CHR 0x85] @ '' 2. FEASIBILITY'') heading_style_pdf,
           Spacer 1 (0.2 * inch)] @
          map (\<lambda>item. Paragraph item bullet_style_pdf) feasibilities_pdf @
          [PageBreak] \<and>
   slide_6_pdf elements =
        elements @
          [Paragraph ([CHR 0xF0, CHR 0x9F, CHR 0x8E, CHR 0xA8] @ '' 3. EXECUTION'') heading_style_pdf,
           Spacer 1 (0.2 * inch)] @
          map (\<lambda>item. Paragraph item bullet_style_pdf) executions_pdf @
          [PageBreak] \<and>
   slide_7_pdf elements =
        elements @
          [Paragraph ([CHR 0xF0, CHR 0x9F, CHR 0x94, CHR 0x97] @ '' 4. INTEGRATION - Deep Hedera Usage'') heading_style_pdf,
           Spacer 1 (0.2 * inch),
           Table_flowable integration_table_pdf,
           PageBreak] \<and>
   slide_8_pdf elements =
        elements @
          [Paragraph ([CHR 0xF0, CHR 0x9F, CHR 0x8F, CHR 0x86] @ '' 5. SUCCESS POTENTIAL'') heading_style_pdf,
           Spacer 1 (0.2 * inch)] @
          map (\<lambda>item. Paragraph item bullet_style_pdf) success_items_pdf @
          [PageBreak] \<and>
   slide_9_pdf elements =
        elements @
          [Paragraph ([CHR 0xE2, CHR 0x9C, CHR 0x94, CHR 0xEF, CHR 0xB8, CHR 0x8F] @ '' 6. VALIDATION'') heading_style_pdf,
           Spacer 1 (0.2 * inch)] @
          map (\<lambda>item. Paragraph item bullet_style_pdf) validation_items_pdf @
          [PageBreak] \<and>
   slide_10_pdf elements =
        elements @
          [Paragraph ([CHR 0xF0, CHR 0x9F, CHR 0x8E, CHR 0xA4] @ '' 7. PITCH - Clear Problem/Solution'') heading_style_pdf,
           Spacer 1 (0.2 * inch),
           Table_flowable pitch_table_pdf,
           PageBreak] \<and>
   slide_11_pdf elements =
        elements @
          [Paragraph ([CHR 0xF0, CHR 0x9F, CHR 0x8F, CHR 0x97, CHR 0xEF, CHR 0xB8, CHR 0x8F] @ '' Technical Architecture'') heading_style_pdf,
           Spacer 1 (0.2 * inch)] @
          map (\<lambda>item. Paragraph item bullet_style_pdf) tech_items_pdf @
          [PageBreak] \<and>
   slide_12_pdf elements =
        elements @
          [Paragraph ([CHR 0xE2, CHR 0x9C, CHR 0xA8] @ '' Key Features'') heading_style_pdf,
           Spacer 1 (0.2 * inch)] @
          map (\<lambda>item. Paragraph item bullet_style_pdf) features_pdf @
          [PageBreak] \<and>
   slide_13_pdf elements =
        elements @
          [Paragraph ([CHR 0xF0, CHR 0x9F, CHR 0x9A, CHR 0x80] @ '' Roadmap'') heading_style_pdf,
           Spacer 1 (0.2 * inch),
           Table_flowable roadmap_table_pdf,
           PageBreak] \<and>
   slide_14_pdf elements =
        elements @
          [Paragraph ([CHR 0xF0, CHR 0x9F, CHR 0x92, CHR 0xB0] @ '' Business Model'') heading_style_pdf,
           Spacer 1 (0.2 * inch)] @
          map (\<lambda>item. Paragraph item bullet_style_pdf) business_items_pdf @
          [PageBreak] \<and>
   slide_15_pdf elements =
        elements @
          [Paragraph ([CHR 0xF0, CHR 0x9F, CHR 0x8E, CHR 0xAF] @ '' Competitive Advantage'') heading_style_pdf,
           Spacer 1 (0.2 * inch)] @
          map (\<lambda>item. Paragraph item bullet_style_pdf) advantages_pdf @
          [PageBreak] \<and>
   slide_16_pdf elements =
        elements @
          [Spacer 1 (2 * inch),
           Paragraph ([CHR 0xF0, CHR 0x9F, CHR 0x8C, CHR 0x9F] @ '' Join the Revolution'') title_style_pdf,
           Spacer 1 (0.3 * inch),
           Paragraph ''Where Digital Souls Come Alive on the Blockchain'' subtitle_style_pdf,
           Spacer 1 (0.2 * inch),
           Paragraph (''Let'' @ [CHR 0x27] @ ''s build the future of AI on Hedera!'') subtitle_style_pdf] \<and>
   create_pdf_final now =
     slide_1_final now [] @ slide_2_final [] @ slide_3_final [] @ slide_4_final [] @
     slide_5_final [] @ slide_6_final [] @ slide_7_final [] @ slide_8_final [] @
     slide_9_final [] @ slide_10_final [] @ slide_11_final [] @ slide_12_final [] @
     slide_13_final [] \<and>
   create_pdf_pdf =
     slide_1_pdf [] @ slide_2_pdf [] @ slide_3_pdf [] @ slide_4_pdf [] @
     slide_5_pdf [] @ slide_6_pdf [] @ slide_7_pdf [] @ slide_8_pdf [] @
     slide_9_pdf [] @ slide_10_pdf [] @ slide_11_pdf [] @ slide_12_pdf [] @
     slide_13_pdf [] @ slide_14_pdf [] @ slide_15_pdf [] @ slide_16_pdf [] \<and>
   (\<exists>prs' s tb sb. add_title_slide prs title subtitle = Inr (prs', s) \<and>
      slides prs' = slides prs @ [s] \<and> shapes s = [tb, sb] \<and>
      map p_text (paragraphs (text_frame tb)) = [title] \<and>
      map p_text (paragraphs (text_frame sb)) = [subtitle]) \<and>
   (\<exists>prs' s tb cb. add_content_slide prs title content_items = Inr (prs', s) \<and>
      slides prs' = slides prs @ [s] \<and> shapes s = [tb, cb] \<and>
      map p_text (paragraphs (text_frame tb)) = [title] \<and>
      map p_text (paragraphs (text_frame cb)) =
        (if content_items = [] then [''''] else content_items)) \<and>
   (\<exists>prs' s tb lb rb. add_two_column_slide prs title left_items right_items = Inr (prs', s) \<and>
      slides prs' = slides prs @ [s] \<and> shapes s = [tb, lb, rb] \<and>
      map p_text (paragraphs (text_frame tb)) = [title] \<and>
      map p_text (paragraphs (text_frame lb)) =
        (if left_items = [] then [''''] else left_items) \<and>
      map p_text (paragraphs (text_frame rb)) =
        (if right_items = [] then [''''] else right_items)) \<and>
   (\<exists>ss. run_calls prs calls = Inr (prs\<lparr>slides := slides prs @ ss\<rparr>) \<and>
      list_all2
        (\<lambda>c s. (case c of
                   Title_slide t st \<Rightarrow> add_title_slide Presentation t st
                 | Content_slide t its \<Rightarrow> add_content_slide Presentation t its
                 | Two_column_slide t ls rs \<Rightarrow> add_two_column_slide Presentation t ls rs) =
                Inr (Presentation\<lparr>slides := [s]\<rparr>, s))
        calls ss) \<and>
   (\<exists>ss. create_pitch_deck =
        Inr \<lparr>slide_width = Inches 10, slide_height = Inches 7.5, slides = ss\<rparr> \<and>
      list_all2
        (\<lambda>c s. (case c of
                   Title_slide t st \<Rightarrow> add_title_slide Presentation t st
                 | Content_slide t its \<Rightarrow> add_content_slide Presentation t its
                 | Two_column_slide t ls rs \<Rightarrow> add_two_column_slide Presentation t ls rs) =
                Inr (Presentation\<lparr>slides := [s]\<rparr>, s))
        deck_calls ss)"
  by (intro conjI;
      (rule append_paragraphs_eq append_spaced_eq slides_final_eq slides_pdf_eq
        create_pdf_final_parts create_pdf_pdf_parts helper_texts run_calls_eq
        create_pitch_deck_eq))

subsection \<open>C7: one slide per call\<close>

text \<open>
  Claim C7: in the slide backend every slide-building call adds exactly one slide, whatever
  the length of its content, and the number of slides is the number of calls. Each of the
  three helpers succeeds and appends one slide; a sequence of calls yields as many new
  slides as there are calls; and the deck has as many slides as \<^verbatim>\<open>create_pitch_deck\<close>
  makes calls, seventeen.
\<close>

theorem one_slide_per_call:
  "(\<exists>s. add_title_slide prs title subtitle = Inr (prs\<lparr>slides := slides prs @ [s]\<rparr>, s)) \<and>
   (\<exists>s. add_content_slide prs title content_items =
      Inr (prs\<lparr>slides := slides prs @ [s]\<rparr>, s)) \<and>
   (\<exists>s. add_two_column_slide prs title left_items right_items =
      Inr (prs\<lparr>slides := slides prs @ [s]\<rparr>, s)) \<and>
   (\<exists>prs'. run_calls prs calls = Inr prs' \<and>
      length (slides prs') = length (slides prs) + length calls) \<and>
   (\<exists>prs'. create_pitch_deck = Inr prs' \<and> length (slides prs') = length deck_calls \<and>
      length deck_calls = 17)"
proof -
  have calls: "\<exists>prs'. run_calls prs calls = Inr prs' \<and>
      length (slides prs') = length (slides prs) + length calls"
  proof -
    obtain ss where "run_calls prs calls = Inr (prs\<lparr>slides := slides prs @ ss\<rparr>)"
      and "length calls = length ss"
      using run_calls_eq [of prs calls] by (auto dest: list_all2_lengthD)
    then show ?thesis by simp
  qed
  have deck: "\<exists>prs'. create_pitch_deck = Inr prs' \<and> length (slides prs') = length deck_calls \<and>
      length deck_calls = 17"
  proof -
    obtain ss where "create_pitch_deck =
        Inr \<lparr>slide_width = Inches 10, slide_height = Inches 7.5, slides = ss\<rparr>"
      and "length deck_calls = length ss"
      using create_pitch_deck_eq by (auto dest: list_all2_lengthD)
    then have "create_pitch_deck =
        Inr \<lparr>slide_width = Inches 10, slide_height = Inches 7.5, slides = ss\<rparr> \<and>
      length (slides \<lparr>slide_width = Inches 10, slide_height = Inches 7.5, slides = ss\<rparr>) =
        length deck_calls \<and> length deck_calls = 17"
      by (simp add: length_deck_calls)
    then show ?thesis by blast
  qed
  show ?thesis
    using calls deck
    by (simp add: add_title_slide_eq add_content_slide_eq add_two_column_slide_eq Let_def)
qed

subsection \<open>C8: the two columns\<close>



subsection \<open>C9: fixed offsets on a slide\<close>

text \<open>
  Claim C9: on every content slide and every two-column slide the title bar is the same
  strip at the top, as wide as the slide and 0.8 inches high, and the body begins 1.2
  inches from the top, whatever the title and the items are. The strip's width, 10
  inches, is the slide width that \<^verbatim>\<open>create_pitch_deck\<close> sets.
\<close>

theorem title_bar_and_body_offsets_fixed:
  "(\<exists>prs' s tb cb. add_content_slide prs title content_items = Inr (prs', s) \<and>
      shapes s = [tb, cb] \<and>
      shape_left tb = 0 \<and> shape_top tb = 0 \<and> shape_width tb = Inches 10 \<and>
      shape_height tb = Inches 0.8 \<and> shape_top cb = Inches 1.2) \<and>
   (\<exists>prs' s tb lb rb. add_two_column_slide prs title left_items right_items = Inr (prs', s) \<and>
      shapes s = [tb, lb, rb] \<and>
      shape_left tb = 0 \<and> shape_top tb = 0 \<and> shape_width tb = Inches 10 \<and>
      shape_height tb = Inches 0.8 \<and> shape_top lb = Inches 1.2 \<and> shape_top rb = Inches 1.2) \<and>
   (\<exists>prs'. create_pitch_deck = Inr prs' \<and> slide_width prs' = Inches 10) \<and>
   Inches 10 = 9144000 \<and> Inches 0.8 = 731520 \<and> Inches 1.2 = 1097280"
proof -
  have deck: "\<exists>prs'. create_pitch_deck = Inr prs' \<and> slide_width prs' = Inches 10"
    using create_pitch_deck_eq by auto
  have helpers: "(\<exists>prs' s tb cb. add_content_slide prs title content_items = Inr (prs', s) \<and>
      shapes s = [tb, cb] \<and>
      shape_left tb = 0 \<and> shape_top tb = 0 \<and> shape_width tb = Inches 10 \<and>
      shape_height tb = Inches 0.8 \<and> shape_top cb = Inches 1.2) \<and>
   (\<exists>prs' s tb lb rb. add_two_column_slide prs title left_items right_items = Inr (prs', s) \<and>
      shapes s = [tb, lb, rb] \<and>
      shape_left tb = 0 \<and> shape_top tb = 0 \<and> shape_width tb = Inches 10 \<and>
      shape_height tb = Inches 0.8 \<and> shape_top lb = Inches 1.2 \<and> shape_top rb = Inches 1.2)"
    by (simp add: add_content_slide_eq add_two_column_slide_eq Let_def Inches_0)
  have "Inches 10 = 9144000 \<and> Inches 0.8 = 731520 \<and> Inches 1.2 = 1097280"
    by (simp add: Inches_def)
  with deck helpers show ?thesis by blast
qed

subsection \<open>C10: item \<open>i\<close> goes to paragraph \<open>i\<close>\<close>

text \<open>
  Claim C10: in the content helper and in both columns of the two-column helper, the
  item at index \<open>i\<close> is written to paragraph \<open>i\<close> of its frame. The loop never reads a
  paragraph out of range; for a non-empty list the frame ends with one formatted
  paragraph per item, in order, the first of them the frame's initial paragraph; for
  the empty list the frame keeps its one empty paragraph.
\<close>

theorem items_fill_paragraphs_by_index:
  "(\<exists>prs' s tb cb. add_content_slide prs title content_items = Inr (prs', s) \<and>
      shapes s = [tb, cb] \<and>
      paragraphs (text_frame cb) =
        (if content_items = [] then [new_paragraph]
         else map (\<lambda>item. content_item item new_paragraph) content_items) \<and>
      map p_text (paragraphs (text_frame cb)) =
        (if content_items = [] then [''''] else content_items) \<and>
      length (paragraphs (text_frame cb)) =
        (if content_items = [] then 1 else length content_items)) \<and>
   (\<exists>prs' s tb lb rb. add_two_column_slide prs title left_items right_items = Inr (prs', s) \<and>
      shapes s = [tb, lb, rb] \<and>
      paragraphs (text_frame lb) =
        (if left_items = [] then [new_paragraph]
         else map (\<lambda>item. column_item item new_paragraph) left_items) \<and>
      map p_text (paragraphs (text_frame lb)) =
        (if left_items = [] then [''''] else left_items) \<and>
      length (paragraphs (text_frame lb)) =
        (if left_items = [] then 1 else length left_items) \<and>
      paragraphs (text_frame rb) =
        (if right_items = [] then [new_paragraph]
         else map (\<lambda>item. column_item item new_paragraph) right_items) \<and>
      map p_text (paragraphs (text_frame rb)) =
        (if right_items = [] then [''''] else right_items) \<and>
      length (paragraphs (text_frame rb)) =
        (if right_items = [] then 1 else length right_items))"
  by (simp add: add_content_slide_eq add_two_column_slide_eq Let_def new_paragraph_def
      content_item_def column_item_def comp_def)

end
